theory Spec2Isabelle
  imports Main "HOL-Library.Sublist"
begin

section \<open>Python values used by weather\_cli.py\<close>

text \<open>
  A Python \<open>str\<close> is modelled as a \<open>string\<close> holding its UTF-8 bytes. Splitting at a
  space and searching for an ASCII substring commute with that encoding; the operations
  that work on code points decode the text first.

  Exceptions are values. \<open>KeyboardInterrupt\<close>, \<open>SystemExit\<close> and \<open>BaseError\<close> stand for
  the classes outside \<open>Exception\<close>; \<open>RequestException\<close> is
  \<open>requests.exceptions.RequestException\<close> with all its subclasses; \<open>OtherError\<close> is any
  other subclass of \<open>Exception\<close>. A computation that may raise returns \<open>exn + 'a\<close>.
\<close>

datatype exn =
    KeyboardInterrupt
  | SystemExit int
  | BaseError string
  | RequestException string
  | KeyError string
  | IndexError string
  | ValueError string
  | OtherError string

text \<open>\<open>isinstance(e, Exception)\<close>.\<close>

fun is_Exception :: "exn \<Rightarrow> bool" where
  "is_Exception KeyboardInterrupt = False"
| "is_Exception (SystemExit _) = False"
| "is_Exception (BaseError _) = False"
| "is_Exception _ = True"

definition bind :: "exn + 'a \<Rightarrow> ('a \<Rightarrow> exn + 'b) \<Rightarrow> exn + 'b" where
  "bind m f = (case m of Inl e \<Rightarrow> Inl e | Inr x \<Rightarrow> f x)"

text \<open>\<open>d[k]\<close> on a dict whose key \<open>k\<close> may be absent, and \<open>d.get(k, default)\<close>.\<close>

definition getitem :: "string \<Rightarrow> 'a option \<Rightarrow> exn + 'a" where
  "getitem k v = (case v of None \<Rightarrow> Inl (KeyError k) | Some x \<Rightarrow> Inr x)"

definition get_default :: "'a option \<Rightarrow> 'a \<Rightarrow> 'a" where
  "get_default v d = (case v of None \<Rightarrow> d | Some x \<Rightarrow> x)"

text \<open>\<open>xs[0]\<close>.\<close>

definition first_item :: "'a list \<Rightarrow> exn + 'a" where
  "first_item xs =
     (case xs of [] \<Rightarrow> Inl (IndexError ''list index out of range'') | x # _ \<Rightarrow> Inr x)"

subsection \<open>Numbers as they are displayed\<close>

text \<open>
  The program never computes with the numbers of a response, it only prints them with
  \<open>str\<close>. An \<open>int\<close> is kept as such; a \<open>float\<close> is kept as the text \<open>repr\<close> gives it.
\<close>

datatype pynum = PyInt int | PyFloat string

definition digit_char :: "int \<Rightarrow> char" where
  "digit_char n = char_of (48 + n)"

text \<open>The decimal digits of a number that is not negative.\<close>

function str_digits :: "int \<Rightarrow> string" where
  "str_digits n =
     (if n < 10 then [digit_char n] else str_digits (n div 10) @ [digit_char (n mod 10)])"
  by pat_completeness auto
termination
  by (relation "measure nat") auto

definition str_int :: "int \<Rightarrow> string" where
  "str_int i = (if i < 0 then ''-'' @ str_digits (- i) else str_digits i)"

fun str_num :: "pynum \<Rightarrow> string" where
  "str_num (PyInt i) = str_int i"
| "str_num (PyFloat r) = r"

text \<open>
  \<open>str(e)\<close>: the message. For a \<open>KeyError\<close> it is the \<open>repr\<close> of the key; the keys of
  this program are ASCII identifiers, which \<open>repr\<close> puts between single quotes.
\<close>

fun exn_str :: "exn \<Rightarrow> string" where
  "exn_str KeyboardInterrupt = []"
| "exn_str (SystemExit n) = str_int n"
| "exn_str (BaseError m) = m"
| "exn_str (RequestException m) = m"
| "exn_str (KeyError k) = [CHR 0x27] @ k @ [CHR 0x27]"
| "exn_str (IndexError m) = m"
| "exn_str (ValueError m) = m"
| "exn_str (OtherError m) = m"

subsection \<open>Text\<close>

text \<open>
  The character properties and case mappings of \<open>str.title\<close>, \<open>repr\<close> and \<open>\d\<close> come from
  the Unicode character database of the interpreter, which is not part of the program.
  For the ASCII code points they are written out below; for the code points from 128 on
  they are a parameter, \<open>ucd\<close>, of every function that calls one of them.
\<close>

record unicode_tables =
  ucd_cased :: "int \<Rightarrow> bool"
  ucd_case_ignorable :: "int \<Rightarrow> bool"
  ucd_title :: "int \<Rightarrow> int list"
  ucd_lower :: "int \<Rightarrow> int list"
  ucd_decimal :: "int \<Rightarrow> int option"
  ucd_printable :: "int \<Rightarrow> bool"

text \<open>
  The code points of a text and back. A byte sequence that is not UTF-8 stands for no
  \<open>str\<close>; \<open>decode\<close> gives \<open>None\<close> for it.
\<close>

definition byte :: "char \<Rightarrow> int" where
  "byte b = of_char b"

definition encode_cp :: "int \<Rightarrow> string" where
  "encode_cp c =
     (if c < 0x80 then [char_of c]
      else if c < 0x800 then [char_of (0xC0 + c div 0x40), char_of (0x80 + c mod 0x40)]
      else if c < 0x10000
        then [char_of (0xE0 + c div 0x1000), char_of (0x80 + c div 0x40 mod 0x40),
              char_of (0x80 + c mod 0x40)]
      else [char_of (0xF0 + c div 0x40000), char_of (0x80 + c div 0x1000 mod 0x40),
            char_of (0x80 + c div 0x40 mod 0x40), char_of (0x80 + c mod 0x40)])"

definition encode :: "int list \<Rightarrow> string" where
  "encode cps = concat (map encode_cp cps)"

text \<open>\<open>decode_from k acc bs\<close>: \<open>k\<close> continuation bytes are still due for the code point \<open>acc\<close>.\<close>

fun decode_from :: "nat \<Rightarrow> int \<Rightarrow> string \<Rightarrow> int list option" where
  "decode_from 0 acc [] = Some []"
| "decode_from (Suc k) acc [] = None"
| "decode_from 0 acc (b # bs) =
     (if byte b < 0x80 then map_option ((#) (byte b)) (decode_from 0 0 bs)
      else if 0xC0 \<le> byte b \<and> byte b < 0xE0 then decode_from (Suc 0) (byte b - 0xC0) bs
      else if 0xE0 \<le> byte b \<and> byte b < 0xF0 then decode_from (Suc (Suc 0)) (byte b - 0xE0) bs
      else if 0xF0 \<le> byte b \<and> byte b < 0xF8
        then decode_from (Suc (Suc (Suc 0))) (byte b - 0xF0) bs
      else None)"
| "decode_from (Suc k) acc (b # bs) =
     (if 0x80 \<le> byte b \<and> byte b < 0xC0
      then (if k = 0 then map_option ((#) (acc * 0x40 + (byte b - 0x80))) (decode_from 0 0 bs)
            else decode_from k (acc * 0x40 + (byte b - 0x80)) bs)
      else None)"

definition decode :: "string \<Rightarrow> int list option" where
  "decode s = decode_from 0 0 s"

subsubsection \<open>\<open>str.title\<close>\<close>

definition cased :: "unicode_tables \<Rightarrow> int \<Rightarrow> bool" where
  "cased ucd c =
     (if c < 128 then (65 \<le> c \<and> c \<le> 90) \<or> (97 \<le> c \<and> c \<le> 122) else ucd_cased ucd c)"

text \<open>The ASCII characters that case mapping ignores: \<open>' . : ^ `\<close>.\<close>

definition case_ignorable :: "unicode_tables \<Rightarrow> int \<Rightarrow> bool" where
  "case_ignorable ucd c =
     (if c < 128 then c \<in> {0x27, 0x2E, 0x3A, 0x5E, 0x60} else ucd_case_ignorable ucd c)"

definition to_title :: "unicode_tables \<Rightarrow> int \<Rightarrow> int list" where
  "to_title ucd c = (if c < 128 then [if 97 \<le> c \<and> c \<le> 122 then c - 32 else c] else ucd_title ucd c)"

definition to_lower :: "unicode_tables \<Rightarrow> int \<Rightarrow> int list" where
  "to_lower ucd c = (if c < 128 then [if 65 \<le> c \<and> c \<le> 90 then c + 32 else c] else ucd_lower ucd c)"

text \<open>
  A capital sigma is final when a cased character comes before it, case-ignorable
  characters skipped, and none comes after it, case-ignorable characters skipped.
  \<open>earlier\<close> holds the characters before it, from the nearest on.
\<close>

definition final_sigma :: "unicode_tables \<Rightarrow> int list \<Rightarrow> int list \<Rightarrow> bool" where
  "final_sigma ucd earlier later =
     ((case dropWhile (case_ignorable ucd) earlier of [] \<Rightarrow> False | p # _ \<Rightarrow> cased ucd p)
      \<and> (case dropWhile (case_ignorable ucd) later of [] \<Rightarrow> True | n # _ \<Rightarrow> \<not> cased ucd n))"

definition lower_at :: "unicode_tables \<Rightarrow> int list \<Rightarrow> int \<Rightarrow> int list \<Rightarrow> int list" where
  "lower_at ucd earlier c later =
     (if c = 0x3A3 then [if final_sigma ucd earlier later then 0x3C2 else 0x3C3]
      else to_lower ucd c)"

text \<open>
  A character is put in title case when the character before it is not cased, in lower
  case otherwise.
\<close>

fun title_cps :: "unicode_tables \<Rightarrow> bool \<Rightarrow> int list \<Rightarrow> int list \<Rightarrow> int list" where
  "title_cps ucd previous_is_cased earlier [] = []"
| "title_cps ucd previous_is_cased earlier (c # later) =
     (if previous_is_cased then lower_at ucd earlier c later else to_title ucd c)
     @ title_cps ucd (cased ucd c) (c # earlier) later"

definition title :: "unicode_tables \<Rightarrow> string \<Rightarrow> string" where
  "title ucd s = (case decode s of None \<Rightarrow> s | Some cps \<Rightarrow> encode (title_cps ucd False [] cps))"

subsubsection \<open>\<open>repr\<close> of a \<open>str\<close>\<close>

definition hex_digit :: "int \<Rightarrow> char" where
  "hex_digit n = ''0123456789abcdef'' ! nat n"

text \<open>The last \<open>k\<close> hexadecimal digits of a number.\<close>

fun hex :: "nat \<Rightarrow> int \<Rightarrow> string" where
  "hex 0 n = []"
| "hex (Suc k) n = hex k (n div 16) @ [hex_digit (n mod 16)]"

definition printable :: "unicode_tables \<Rightarrow> int \<Rightarrow> bool" where
  "printable ucd c = (if c < 128 then 0x20 \<le> c \<and> c < 0x7F else ucd_printable ucd c)"

definition repr_cp :: "unicode_tables \<Rightarrow> int \<Rightarrow> int \<Rightarrow> string" where
  "repr_cp ucd quote c =
     (if c = quote \<or> c = 0x5C then [CHR 0x5C, char_of c]
      else if c = 0x09 then [CHR 0x5C, CHR ''t'']
      else if c = 0x0A then [CHR 0x5C, CHR ''n'']
      else if c = 0x0D then [CHR 0x5C, CHR ''r'']
      else if printable ucd c then encode_cp c
      else if c \<le> 0xFF then [CHR 0x5C, CHR ''x''] @ hex 2 c
      else if c \<le> 0xFFFF then [CHR 0x5C, CHR ''u''] @ hex 4 c
      else [CHR 0x5C, CHR ''U''] @ hex 8 c)"

text \<open>Double quotes are used when the text has a single quote and no double quote.\<close>

definition repr :: "unicode_tables \<Rightarrow> string \<Rightarrow> string" where
  "repr ucd s =
     (case decode s of
        None \<Rightarrow> [CHR 0x27] @ s @ [CHR 0x27]
      | Some cps \<Rightarrow>
          let quote = (if 0x27 \<in> set cps \<and> 0x22 \<notin> set cps then 0x22 else 0x27)
          in [char_of quote] @ concat (map (repr_cp ucd quote) cps) @ [char_of quote])"

subsubsection \<open>Splitting and searching\<close>

text \<open>\<open>s.split(' ')[0]\<close>: the text before the first space, all of \<open>s\<close> when it has none.\<close>

definition split_first :: "string \<Rightarrow> string" where
  "split_first s = takeWhile (\<lambda>c. c \<noteq> CHR '' '') s"

text \<open>\<open>p in s\<close> on two strings: \<open>p\<close> occurs in \<open>s\<close> as a contiguous piece.\<close>

fun contains :: "string \<Rightarrow> string \<Rightarrow> bool" where
  "contains p [] = (p = [])"
| "contains p (c # cs) = (prefix p (c # cs) \<or> contains p cs)"

subsection \<open>The calendar: \<open>datetime.strptime(date, '%Y-%m-%d').strftime('%A')\<close>\<close>

text \<open>
  \<open>strptime\<close> matches the text against the pattern
  \<open>(\d\d\d\d)-(1[0-2]|0[1-9]|[1-9])-(3[0-1]|[1-2]\d|0[1-9]|[1-9]| [1-9])\<close>, requires that
  nothing is left over, and then that the date exists in the proleptic Gregorian calendar
  with a year from 1 to 9999. Every failure is a \<open>ValueError\<close>. \<open>\d\<close> matches every decimal
  digit of Unicode, and \<open>int\<close> reads it by its value; the bracketed classes match ASCII
  only. The last alternative of the day needs a space, which a date (the text before the
  first space) does not have.
\<close>

definition decimal :: "unicode_tables \<Rightarrow> int \<Rightarrow> int option" where
  "decimal ucd c =
     (if 48 \<le> c \<and> c \<le> 57 then Some (c - 48) else if c < 128 then None else ucd_decimal ucd c)"

text \<open>A literal hyphen of the pattern.\<close>

definition match_hyphen :: "int list \<Rightarrow> int list option" where
  "match_hyphen s = (case s of [] \<Rightarrow> None | c # rest \<Rightarrow> if c = 0x2D then Some rest else None)"

text \<open>The four digits of the year and the hyphen after them.\<close>

definition match_year :: "unicode_tables \<Rightarrow> int list \<Rightarrow> (int \<times> int list) option" where
  "match_year ucd s =
     (case s of
        y1 # y2 # y3 # y4 # rest \<Rightarrow>
          (case (decimal ucd y1, decimal ucd y2, decimal ucd y3, decimal ucd y4, match_hyphen rest) of
             (Some d1, Some d2, Some d3, Some d4, Some rest1) \<Rightarrow>
               Some (1000 * d1 + 100 * d2 + 10 * d3 + d4, rest1)
           | _ \<Rightarrow> None)
      | _ \<Rightarrow> None)"

text \<open>
  The month alternatives, tried in the order of the pattern. The hyphen after the month
  must match too, so a two-character alternative that is not followed by a hyphen gives
  way to the one-character alternative.
\<close>

definition match_month :: "int list \<Rightarrow> (int \<times> int list) option" where
  "match_month s =
     (case s of
        a # b # rest \<Rightarrow>
          (if a = 0x31 \<and> 0x30 \<le> b \<and> b \<le> 0x32 \<and> match_hyphen rest \<noteq> None
             then Some (10 + (b - 0x30), the (match_hyphen rest))
           else if a = 0x30 \<and> 0x31 \<le> b \<and> b \<le> 0x39 \<and> match_hyphen rest \<noteq> None
             then Some (b - 0x30, the (match_hyphen rest))
           else if 0x31 \<le> a \<and> a \<le> 0x39 \<and> b = 0x2D
             then Some (a - 0x30, rest)
           else None)
      | _ \<Rightarrow> None)"

text \<open>The day alternatives; the first that matches is taken, the rest of the text is returned.\<close>

definition match_day :: "unicode_tables \<Rightarrow> int list \<Rightarrow> (int \<times> int list) option" where
  "match_day ucd s =
     (case s of
        [] \<Rightarrow> None
      | [a] \<Rightarrow> if 0x31 \<le> a \<and> a \<le> 0x39 then Some (a - 0x30, []) else None
      | a # b # rest \<Rightarrow>
          (if a = 0x33 \<and> 0x30 \<le> b \<and> b \<le> 0x31 then Some (30 + (b - 0x30), rest)
           else if 0x31 \<le> a \<and> a \<le> 0x32 \<and> decimal ucd b \<noteq> None
             then Some (10 * (a - 0x30) + the (decimal ucd b), rest)
           else if a = 0x30 \<and> 0x31 \<le> b \<and> b \<le> 0x39 then Some (b - 0x30, rest)
           else if 0x31 \<le> a \<and> a \<le> 0x39 then Some (a - 0x30, b # rest)
           else None))"

definition is_leap :: "int \<Rightarrow> bool" where
  "is_leap y = (y mod 4 = 0 \<and> (y mod 100 \<noteq> 0 \<or> y mod 400 = 0))"

definition days_in_month :: "int \<Rightarrow> int \<Rightarrow> int" where
  "days_in_month y m =
     (if m = 2 then (if is_leap y then 29 else 28)
      else if m \<in> {4, 6, 9, 11} then 30 else 31)"

definition days_before_year :: "int \<Rightarrow> int" where
  "days_before_year y = (y - 1) * 365 + (y - 1) div 4 - (y - 1) div 100 + (y - 1) div 400"

definition days_before_month :: "int \<Rightarrow> int \<Rightarrow> int" where
  "days_before_month y m = sum_list (map (days_in_month y) [1..m - 1])"

text \<open>\<open>date.toordinal\<close>: day 1 is 0001-01-01, a Monday.\<close>

definition toordinal :: "int \<Rightarrow> int \<Rightarrow> int \<Rightarrow> int" where
  "toordinal y m d = days_before_year y + days_before_month y m + d"

text \<open>\<open>"time data %r does not match format %r" % (data_string, format)\<close>.\<close>

definition strptime_message :: "unicode_tables \<Rightarrow> string \<Rightarrow> string" where
  "strptime_message ucd date =
     ''time data '' @ repr ucd date @ '' does not match format '' @ repr ucd ''%Y-%m-%d''"

definition strptime :: "unicode_tables \<Rightarrow> string \<Rightarrow> exn + (int \<times> int \<times> int)" where
  "strptime ucd date =
     (case decode date of
        None \<Rightarrow> Inl (ValueError (strptime_message ucd date))
      | Some cps \<Rightarrow>
     (case match_year ucd cps of
        None \<Rightarrow> Inl (ValueError (strptime_message ucd date))
      | Some (y, rest) \<Rightarrow>
          (case match_month rest of
             None \<Rightarrow> Inl (ValueError (strptime_message ucd date))
           | Some (m, rest1) \<Rightarrow>
               (case match_day ucd rest1 of
                  None \<Rightarrow> Inl (ValueError (strptime_message ucd date))
                | Some (d, rest2) \<Rightarrow>
                    if rest2 \<noteq> []
                      then Inl (ValueError (''unconverted data remains: '' @ encode rest2))
                    else if y = 0 then Inl (ValueError ''year 0 is out of range'')
                    else if days_in_month y m < d
                      then Inl (ValueError ''day is out of range for month'')
                    else Inr (y, m, d)))))"

definition day_names :: "string list" where
  "day_names = [''Monday'', ''Tuesday'', ''Wednesday'', ''Thursday'', ''Friday'',
                ''Saturday'', ''Sunday'']"

text \<open>\<open>strftime('%A')\<close> in the C locale.\<close>

definition strftime_A :: "int \<times> int \<times> int \<Rightarrow> string" where
  "strftime_A date_obj =
     (case date_obj of (y, m, d) \<Rightarrow> day_names ! nat ((toordinal y m d + 6) mod 7))"

section \<open>The JSON documents\<close>

text \<open>
  A response is a dict of dicts. Each dict is a record with one optional field for every
  key the program reads or writes: \<open>None\<close> is an absent key, so that \<open>d[k]\<close> on it is
  a \<open>KeyError\<close> and \<open>d.get(k, default)\<close> the default. A field is named after its dict and
  its key. One record, \<open>data_dict\<close>, serves the weather document, the forecast document
  and the error document \<open>{'error': message}\<close>, as one Python variable \<open>data\<close> does.
\<close>

record main_dict =
  main_temp :: "pynum option"
  main_feels_like :: "pynum option"
  main_humidity :: "pynum option"
  main_pressure :: "pynum option"

record weather_dict =
  weather_main :: "string option"
  weather_description :: "string option"
  weather_icon :: "string option"

record wind_dict =
  wind_speed :: "pynum option"
  wind_deg :: "pynum option"

record sys_dict =
  sys_country :: "string option"

record city_dict =
  city_name :: "string option"
  city_country :: "string option"

record item_dict =
  item_dt :: "int option"
  item_main :: "main_dict option"
  item_weather :: "weather_dict list option"
  item_dt_txt :: "string option"

record data_dict =
  data_error :: "string option"
  data_name :: "string option"
  data_main :: "main_dict option"
  data_weather :: "weather_dict list option"
  data_wind :: "wind_dict option"
  data_visibility :: "pynum option"
  data_sys :: "sys_dict option"
  data_city :: "city_dict option"
  data_list :: "item_dict list option"
  data_demo :: "bool option"

text \<open>The empty dict \<open>{}\<close>.\<close>

definition empty_data :: data_dict where
  "empty_data =
     \<lparr>data_error = None, data_name = None, data_main = None, data_weather = None,
      data_wind = None, data_visibility = None, data_sys = None, data_city = None,
      data_list = None, data_demo = None\<rparr>"

definition empty_sys :: sys_dict where
  "empty_sys = \<lparr>sys_country = None\<rparr>"

section \<open>The data source: class \<open>WeatherCLI\<close>\<close>

record weather_cli =
  self_api_key :: "string option"
  self_base_url :: string

text \<open>
  The HTTP library is outside the program. A call of \<open>requests.get\<close> is the function
  \<open>requests_get\<close> of the run: it raises or returns a response, whose two methods the program
  calls, \<open>raise_for_status()\<close> (which raises or returns nothing) and \<open>json()\<close> (which raises
  or returns the document).
\<close>

datatype param = Str string | Num int

record request =
  req_url :: string
  req_params :: "(string \<times> param) list"
  req_timeout :: int

record response =
  resp_raise_for_status :: "exn option"
  resp_json :: "exn + data_dict"

text \<open>\<open>not self.api_key\<close> is the negation of this: \<open>None\<close> and the empty string are false.\<close>

definition truthy :: "string option \<Rightarrow> bool" where
  "truthy v = (case v of None \<Rightarrow> False | Some k \<Rightarrow> k \<noteq> [])"

definition get_demo_weather :: "unicode_tables \<Rightarrow> string \<Rightarrow> data_dict" where
  "get_demo_weather ucd city =
     empty_data
       \<lparr>data_name := Some (title ucd city),
        data_main := Some \<lparr>main_temp = Some (PyFloat ''22.5''),
                           main_feels_like = Some (PyFloat ''24.1''),
                           main_humidity = Some (PyInt 65),
                           main_pressure = Some (PyInt 1013)\<rparr>,
        data_weather := Some [\<lparr>weather_main = Some ''Clear'',
                                weather_description = Some ''clear sky'',
                                weather_icon = Some ''01d''\<rparr>],
        data_wind := Some \<lparr>wind_speed = Some (PyFloat ''3.2''), wind_deg = Some (PyInt 180)\<rparr>,
        data_visibility := Some (PyInt 10000),
        data_sys := Some \<lparr>sys_country = Some ''DEMO''\<rparr>,
        data_demo := Some True\<rparr>"

definition get_demo_forecast :: "unicode_tables \<Rightarrow> string \<Rightarrow> data_dict" where
  "get_demo_forecast ucd city =
     empty_data
       \<lparr>data_city := Some \<lparr>city_name = Some (title ucd city), city_country = Some ''DEMO''\<rparr>,
        data_list := Some
          [\<lparr>item_dt = Some 1695398400,
            item_main = Some \<lparr>main_temp = Some (PyFloat ''25.0''), main_feels_like = None,
                               main_humidity = Some (PyInt 60), main_pressure = None\<rparr>,
            item_weather = Some [\<lparr>weather_main = Some ''Sunny'',
                                    weather_description = Some ''sunny'',
                                    weather_icon = None\<rparr>],
            item_dt_txt = Some ''2024-09-22 12:00:00''\<rparr>,
           \<lparr>item_dt = Some 1695484800,
            item_main = Some \<lparr>main_temp = Some (PyFloat ''23.0''), main_feels_like = None,
                               main_humidity = Some (PyInt 70), main_pressure = None\<rparr>,
            item_weather = Some [\<lparr>weather_main = Some ''Clouds'',
                                    weather_description = Some ''partly cloudy'',
                                    weather_icon = None\<rparr>],
            item_dt_txt = Some ''2024-09-23 12:00:00''\<rparr>],
        data_demo := Some True\<rparr>"

text \<open>
  The \<open>try\<close> block of both fetch methods, given what \<open>requests.get\<close> did: the three calls
  in sequence, and the one handler, which catches \<open>RequestException\<close> and nothing else.
\<close>

definition request_failed :: "exn \<Rightarrow> exn + data_dict" where
  "request_failed e =
     (case e of
        RequestException m \<Rightarrow> Inr (empty_data\<lparr>data_error := Some (''API request failed: '' @ m)\<rparr>)
      | _ \<Rightarrow> Inl e)"

definition try_request :: "exn + response \<Rightarrow> exn + data_dict" where
  "try_request got =
     (case got of
        Inl e \<Rightarrow> request_failed e
      | Inr response \<Rightarrow>
          (case resp_raise_for_status response of
             Some e \<Rightarrow> request_failed e
           | None \<Rightarrow>
               (case resp_json response of
                  Inl e \<Rightarrow> request_failed e
                | Inr document \<Rightarrow> Inr document)))"

text \<open>
  Both fetch methods return the requests they sent, in order, beside their result.
\<close>

definition get_current_weather ::
  "unicode_tables \<Rightarrow> weather_cli \<Rightarrow> (request \<Rightarrow> exn + response) \<Rightarrow> string \<Rightarrow> string
     \<Rightarrow> request list \<times> (exn + data_dict)" where
  "get_current_weather ucd self requests_get city units =
     (case self_api_key self of
        None \<Rightarrow> ([], Inr (get_demo_weather ucd city))
      | Some key \<Rightarrow>
          if key = [] then ([], Inr (get_demo_weather ucd city))
          else
            let url = self_base_url self @ ''/weather'';
                params = [(''q'', Str city), (''appid'', Str key), (''units'', Str units)];
                req = \<lparr>req_url = url, req_params = params, req_timeout = 10\<rparr>
            in ([req], try_request (requests_get req)))"

definition get_forecast ::
  "unicode_tables \<Rightarrow> weather_cli \<Rightarrow> (request \<Rightarrow> exn + response) \<Rightarrow> string \<Rightarrow> string \<Rightarrow> int
     \<Rightarrow> request list \<times> (exn + data_dict)" where
  "get_forecast ucd self requests_get city units days =
     (case self_api_key self of
        None \<Rightarrow> ([], Inr (get_demo_forecast ucd city))
      | Some key \<Rightarrow>
          if key = [] then ([], Inr (get_demo_forecast ucd city))
          else
            let url = self_base_url self @ ''/forecast'';
                params = [(''q'', Str city), (''appid'', Str key), (''units'', Str units),
                          (''cnt'', Num (days * 8))];
                req = \<lparr>req_url = url, req_params = params, req_timeout = 10\<rparr>
            in ([req], try_request (requests_get req)))"

section \<open>The formatter\<close>

subsection \<open>The pictographs of the templates, as UTF-8\<close>

definition nl :: string where "nl = [CHR 0x0A]"
definition degree_sign :: string where "degree_sign = [CHR 0xC2, CHR 0xB0]"
definition cross_mark :: string where "cross_mark = [CHR 0xE2, CHR 0x9D, CHR 0x8C]"
definition warning_sign :: string where
  "warning_sign = [CHR 0xE2, CHR 0x9A, CHR 0xA0, CHR 0xEF, CHR 0xB8, CHR 0x8F]"
definition wrench :: string where "wrench = [CHR 0xF0, CHR 0x9F, CHR 0x94, CHR 0xA7]"
definition sun_behind_cloud :: string where
  "sun_behind_cloud = [CHR 0xF0, CHR 0x9F, CHR 0x8C, CHR 0xA4, CHR 0xEF, CHR 0xB8, CHR 0x8F]"
definition thermometer :: string where
  "thermometer = [CHR 0xF0, CHR 0x9F, CHR 0x8C, CHR 0xA1, CHR 0xEF, CHR 0xB8, CHR 0x8F]"
definition cloud :: string where
  "cloud = [CHR 0xE2, CHR 0x98, CHR 0x81, CHR 0xEF, CHR 0xB8, CHR 0x8F]"
definition droplet :: string where "droplet = [CHR 0xF0, CHR 0x9F, CHR 0x92, CHR 0xA7]"
definition down_button :: string where "down_button = [CHR 0xF0, CHR 0x9F, CHR 0x94, CHR 0xBD]"
definition dashing_away :: string where "dashing_away = [CHR 0xF0, CHR 0x9F, CHR 0x92, CHR 0xA8]"
definition eye :: string where
  "eye = [CHR 0xF0, CHR 0x9F, CHR 0x91, CHR 0x81, CHR 0xEF, CHR 0xB8, CHR 0x8F]"
definition calendar :: string where "calendar = [CHR 0xF0, CHR 0x9F, CHR 0x93, CHR 0x85]"
definition tear_off_calendar :: string where
  "tear_off_calendar = [CHR 0xF0, CHR 0x9F, CHR 0x93, CHR 0x86]"
definition waving_hand :: string where "waving_hand = [CHR 0xF0, CHR 0x9F, CHR 0x91, CHR 0x8B]"

subsection \<open>The local variables of both formatters\<close>

text \<open>
  \<open>temp_unit\<close> and \<open>speed_unit\<close> are a function of \<open>units\<close>, \<open>demo_note\<close> of
  \<open>data.get('demo')\<close>.
\<close>

definition temp_unit :: "string \<Rightarrow> string" where
  "temp_unit units = (if units = ''metric'' then degree_sign @ ''C'' else degree_sign @ ''F'')"

definition speed_unit :: "string \<Rightarrow> string" where
  "speed_unit units = (if units = ''metric'' then ''m/s'' else ''mph'')"

definition demo_note :: "data_dict \<Rightarrow> string" where
  "demo_note data =
     (if data_demo data = Some True then nl @ wrench @ '' DEMO MODE - Using sample data'' else [])"

subsection \<open>\<open>format_current_weather\<close>\<close>

text \<open>\<open>d['main'][k]\<close> for the dict \<open>d['main']\<close> of a document or of a forecast entry.\<close>

definition main_item ::
  "main_dict option \<Rightarrow> string \<Rightarrow> (main_dict \<Rightarrow> pynum option) \<Rightarrow> exn + pynum" where
  "main_item main_opt k field = bind (getitem ''main'' main_opt) (\<lambda>m. getitem k (field m))"

text \<open>
  The replacement fields of the template are evaluated from left to right; the first that
  raises ends the call.
\<close>

definition format_current_weather :: "unicode_tables \<Rightarrow> data_dict \<Rightarrow> string \<Rightarrow> exn + string" where
  "format_current_weather ucd data units =
     (case data_error data of
        Some message \<Rightarrow> Inr (cross_mark @ '' Error: '' @ message)
      | None \<Rightarrow>
          bind (getitem ''name'' (data_name data)) (\<lambda>name.
          bind (main_item (data_main data) ''temp'' main_temp) (\<lambda>temp.
          bind (main_item (data_main data) ''feels_like'' main_feels_like) (\<lambda>feels_like.
          bind (getitem ''weather'' (data_weather data)) (\<lambda>weather.
          bind (first_item weather) (\<lambda>weather0.
          bind (getitem ''description'' (weather_description weather0)) (\<lambda>description.
          bind (main_item (data_main data) ''humidity'' main_humidity) (\<lambda>humidity.
          bind (main_item (data_main data) ''pressure'' main_pressure) (\<lambda>pressure.
          bind (getitem ''wind'' (data_wind data)) (\<lambda>wind.
          bind (getitem ''speed'' (wind_speed wind)) (\<lambda>speed.
          Inr (nl @ sun_behind_cloud @ ''  Current Weather for '' @ name @ '', ''
                 @ get_default (sys_country (get_default (data_sys data) empty_sys)) ''N/A'' @ nl
               @ replicate 50 CHR ''='' @ nl
               @ thermometer @ ''  Temperature: '' @ str_num temp @ temp_unit units
                 @ '' (feels like '' @ str_num feels_like @ temp_unit units @ '')'' @ nl
               @ cloud @ ''  Condition: '' @ title ucd description @ nl
               @ droplet @ '' Humidity: '' @ str_num humidity @ ''%'' @ nl
               @ down_button @ '' Pressure: '' @ str_num pressure @ '' hPa'' @ nl
               @ dashing_away @ '' Wind: '' @ str_num speed @ '' '' @ speed_unit units @ nl
               @ eye @ ''  Visibility: ''
                 @ (case data_visibility data of None \<Rightarrow> ''N/A'' | Some v \<Rightarrow> str_num v)
                 @ '' meters'' @ demo_note data @ nl))))))))))))"

subsection \<open>\<open>format_forecast\<close>\<close>

text \<open>The header, the first value of \<open>output\<close>.\<close>

definition forecast_header :: "data_dict \<Rightarrow> exn + string" where
  "forecast_header data =
     bind (getitem ''city'' (data_city data)) (\<lambda>city.
     bind (getitem ''name'' (city_name city)) (\<lambda>name.
     Inr (nl @ calendar @ '' 5-Day Weather Forecast for '' @ name @ '', ''
            @ get_default (city_country city) ''N/A'' @ nl
          @ replicate 60 CHR ''='' @ demo_note data @ nl)))"

text \<open>
  The dict \<open>daily_forecasts\<close> is an association list in insertion order, the order in
  which \<open>items()\<close> enumerates a dict. \<open>dict_new\<close> is \<open>d[k] = []\<close> for a key that is not
  in \<open>d\<close>; \<open>dict_append\<close> is \<open>d[k].append(x)\<close> for a key that is.
\<close>

definition dict_has :: "('k \<times> 'v) list \<Rightarrow> 'k \<Rightarrow> bool" where
  "dict_has d k = (k \<in> set (map fst d))"

definition dict_new :: "('k \<times> 'v list) list \<Rightarrow> 'k \<Rightarrow> ('k \<times> 'v list) list" where
  "dict_new d k = d @ [(k, [])]"

definition dict_append :: "('k \<times> 'v list) list \<Rightarrow> 'k \<Rightarrow> 'v \<Rightarrow> ('k \<times> 'v list) list" where
  "dict_append d k x = map (\<lambda>(k', v). if k' = k then (k', v @ [x]) else (k', v)) d"

text \<open>The first loop, over \<open>data['list'][:40]\<close>.\<close>

fun group_loop ::
  "(string \<times> item_dict list) list \<Rightarrow> item_dict list \<Rightarrow> exn + (string \<times> item_dict list) list" where
  "group_loop daily_forecasts [] = Inr daily_forecasts"
| "group_loop daily_forecasts (item # items) =
     (case item_dt_txt item of
        None \<Rightarrow> Inl (KeyError ''dt_txt'')
      | Some dt_txt \<Rightarrow>
          let date = split_first dt_txt;
              daily1 = (if \<not> dict_has daily_forecasts date then dict_new daily_forecasts date
                        else daily_forecasts)
          in group_loop (dict_append daily1 date item) items)"

text \<open>
  \<open>next((f for f in forecasts if '12:00:00' in f['dt_txt']), default)\<close>: the first entry
  whose text contains \<open>12:00:00\<close>, the default when the list is exhausted.
\<close>

fun next_midday :: "item_dict list \<Rightarrow> item_dict \<Rightarrow> exn + item_dict" where
  "next_midday [] default_item = Inr default_item"
| "next_midday (f # fs) default_item =
     (case item_dt_txt f of
        None \<Rightarrow> Inl (KeyError ''dt_txt'')
      | Some dt_txt \<Rightarrow>
          if contains ''12:00:00'' dt_txt then Inr f else next_midday fs default_item)"

text \<open>The default \<open>forecasts[0]\<close> is evaluated before \<open>next\<close> is called.\<close>

definition midday_forecast :: "item_dict list \<Rightarrow> exn + item_dict" where
  "midday_forecast forecasts = bind (first_item forecasts) (\<lambda>first. next_midday forecasts first)"

text \<open>The body of the second loop: the text added to \<open>output\<close> for one date.\<close>

definition day_block :: "unicode_tables \<Rightarrow> string \<Rightarrow> string \<times> item_dict list \<Rightarrow> exn + string" where
  "day_block ucd units bucket =
     (case bucket of (date, forecasts) \<Rightarrow>
        bind (midday_forecast forecasts) (\<lambda>midday.
        bind (strptime ucd date) (\<lambda>date_obj.
        let day_name = strftime_A date_obj in
        bind (main_item (item_main midday) ''temp'' main_temp) (\<lambda>temp.
        bind (getitem ''weather'' (item_weather midday)) (\<lambda>weather.
        bind (first_item weather) (\<lambda>weather0.
        bind (getitem ''description'' (weather_description weather0)) (\<lambda>description.
        bind (main_item (item_main midday) ''humidity'' main_humidity) (\<lambda>humidity.
        Inr (nl @ tear_off_calendar @ '' '' @ day_name @ '', '' @ date @ nl
             @ ''   '' @ thermometer @ ''  '' @ str_num temp @ temp_unit units @ nl
             @ ''   '' @ cloud @ ''  '' @ title ucd description @ nl
             @ ''   '' @ droplet @ '' '' @ str_num humidity @ ''% humidity'' @ nl)))))))))"

fun day_loop :: "unicode_tables \<Rightarrow> string \<Rightarrow> string \<Rightarrow> (string \<times> item_dict list) list \<Rightarrow> exn + string" where
  "day_loop ucd units output [] = Inr output"
| "day_loop ucd units output (bucket # buckets) =
     (case day_block ucd units bucket of
        Inl e \<Rightarrow> Inl e
      | Inr block \<Rightarrow> day_loop ucd units (output @ block) buckets)"

definition format_forecast :: "unicode_tables \<Rightarrow> data_dict \<Rightarrow> string \<Rightarrow> exn + string" where
  "format_forecast ucd data units =
     (case data_error data of
        Some message \<Rightarrow> Inr (cross_mark @ '' Error: '' @ message)
      | None \<Rightarrow>
          bind (forecast_header data) (\<lambda>output.
          bind (getitem ''list'' (data_list data)) (\<lambda>list.
          bind (group_loop [] (take 40 list)) (\<lambda>daily_forecasts.
          day_loop ucd units output (take 5 daily_forecasts)))))"

section \<open>The program: \<open>main\<close>\<close>

text \<open>
  A run is determined by what the calls out of the program do: \<open>parse_args\<close> (which
  returns the arguments, or raises: \<open>SystemExit\<close> on a bad command line), the environment
  variable, the character tables of the interpreter, \<open>requests.get\<close>, and \<open>print\<close>. A
  user interrupt reaches the program as a \<open>KeyboardInterrupt\<close> raised by the call that is
  running.

  \<open>print(text)\<close> writes the text and a newline to standard output, and may raise when
  only part of that is written: \<open>w_print_fault w text = Some (n, e)\<close> says that the call
  raises \<open>e\<close> when \<open>n\<close> bytes are out. Standard output is the text written so far.
\<close>

record args =
  args_city :: string
  args_forecast :: bool
  args_units :: string
  args_api_key :: "string option"

record world =
  w_parse_args :: "exn + args"
  w_getenv :: "string option"
  w_unicode :: unicode_tables
  w_requests_get :: "request \<Rightarrow> exn + response"
  w_print_fault :: "string \<Rightarrow> (nat \<times> exn) option"

definition py_print :: "world \<Rightarrow> string \<Rightarrow> string \<Rightarrow> string \<times> (exn + unit)" where
  "py_print w out text =
     (case w_print_fault w text of
        None \<Rightarrow> (out @ text @ nl, Inr ())
      | Some (n, e) \<Rightarrow> (out @ take n (text @ nl), Inl e))"

text \<open>Consecutive \<open>print\<close> statements.\<close>

fun print_all :: "world \<Rightarrow> string \<Rightarrow> string list \<Rightarrow> string \<times> (exn + unit)" where
  "print_all w out [] = (out, Inr ())"
| "print_all w out (text # texts) =
     (case py_print w out text of
        (out1, Inl e) \<Rightarrow> (out1, Inl e)
      | (out1, Inr _) \<Rightarrow> print_all w out1 texts)"

text \<open>\<open>WeatherCLI.__init__\<close>; \<open>api_key or os.getenv(...)\<close>.\<close>

definition init :: "world \<Rightarrow> string \<Rightarrow> string option \<Rightarrow> string \<times> (exn + weather_cli)" where
  "init w out api_key =
     (let self = \<lparr>self_api_key = (if truthy api_key then api_key else w_getenv w),
                  self_base_url = ''http://api.openweathermap.org/data/2.5''\<rparr>
      in if \<not> truthy (self_api_key self)
         then (case print_all w out
                 [warning_sign @ ''  Warning: No API key provided. Using demo mode with sample data.'',
                  ''   To use real data, get a free API key from https://openweathermap.org/api'',
                  ''   Then set OPENWEATHER_API_KEY environment variable or use --api-key option'']
               of (out1, Inl e) \<Rightarrow> (out1, Inl e)
                | (out1, Inr _) \<Rightarrow> (out1, Inr self))
         else (out, Inr self))"

text \<open>The body of the \<open>try\<close> statement of \<open>main\<close>.\<close>

definition try_body ::
  "world \<Rightarrow> string \<Rightarrow> weather_cli \<Rightarrow> args \<Rightarrow> string \<times> (exn + unit)" where
  "try_body w out weather a =
     (case (if args_forecast a
            then bind (snd (get_forecast (w_unicode w) weather (w_requests_get w) (args_city a)
                             (args_units a) 5))
                   (\<lambda>data. format_forecast (w_unicode w) data (args_units a))
            else bind (snd (get_current_weather (w_unicode w) weather (w_requests_get w)
                             (args_city a) (args_units a)))
                   (\<lambda>data. format_current_weather (w_unicode w) data (args_units a)))
      of Inl e \<Rightarrow> (out, Inl e)
       | Inr output \<Rightarrow> py_print w out output)"

text \<open>
  \<open>main\<close> returns (\<open>Inr ()\<close>, exit status 0), or an exception leaves it: \<open>SystemExit n\<close> from
  \<open>sys.exit(n)\<close>, or one that no handler caught.
\<close>

definition main :: "world \<Rightarrow> string \<times> (exn + unit)" where
  "main w =
     (case w_parse_args w of
        Inl e \<Rightarrow> ([], Inl e)
      | Inr a \<Rightarrow>
          (case init w [] (args_api_key a) of
             (out, Inl e) \<Rightarrow> (out, Inl e)
           | (out, Inr weather) \<Rightarrow>
               (case try_body w out weather a of
                  (out1, Inr u) \<Rightarrow> (out1, Inr u)
                | (out1, Inl e) \<Rightarrow>
                    if e = KeyboardInterrupt then
                      (case py_print w out1 (nl @ waving_hand @ '' Goodbye!'') of
                         (out2, Inl e2) \<Rightarrow> (out2, Inl e2)
                       | (out2, Inr _) \<Rightarrow> (out2, Inl (SystemExit 0)))
                    else if is_Exception e then
                      (case py_print w out1 (cross_mark @ '' Unexpected error: '' @ exn_str e) of
                         (out2, Inl e2) \<Rightarrow> (out2, Inl e2)
                       | (out2, Inr _) \<Rightarrow> (out2, Inl (SystemExit 1)))
                    else (out1, Inl e))))"

section \<open>Notions of the specification\<close>

subsection \<open>Grouping by calendar date\<close>

text \<open>The calendar date of an entry: the text of its timestamp before the first space.\<close>

definition entry_date :: "item_dict \<Rightarrow> string" where
  "entry_date item = (case item_dt_txt item of None \<Rightarrow> [] | Some t \<Rightarrow> split_first t)"

text \<open>The distinct values of a list, in the order in which each is first encountered.\<close>

fun first_seen :: "'a list \<Rightarrow> 'a list" where
  "first_seen [] = []"
| "first_seen (x # xs) = x # first_seen (filter (\<lambda>y. y \<noteq> x) xs)"

text \<open>
  The partition of the entries by date: one bucket for each date, in the order of first
  encounter, holding the entries of that date in their original order.
\<close>

definition date_buckets :: "item_dict list \<Rightarrow> (string \<times> item_dict list) list" where
  "date_buckets items =
     map (\<lambda>d. (d, filter (\<lambda>i. entry_date i = d) items)) (first_seen (map entry_date items))"

subsection \<open>The representative entry of a bucket\<close>

text \<open>The time component of a timestamp: the text after its first space.\<close>

definition time_component :: "string \<Rightarrow> string" where
  "time_component t = drop 1 (dropWhile (\<lambda>c. c \<noteq> CHR '' '') t)"

text \<open>A time of the form \<open>HH:MM:SS\<close>, with ASCII digits.\<close>

definition is_digit :: "char \<Rightarrow> bool" where
  "is_digit c = (48 \<le> byte c \<and> byte c \<le> 57)"

definition clock_time :: "string \<Rightarrow> bool" where
  "clock_time h =
     (case h of
        [h1, h2, c1, m1, m2, c2, s1, s2] \<Rightarrow>
          c1 = CHR '':'' \<and> c2 = CHR '':'' \<and> list_all is_digit [h1, h2, m1, m2, s1, s2]
      | _ \<Rightarrow> False)"

text \<open>A timestamp of the form \<open>date HH:MM:SS\<close>, with no colon in the date.\<close>

definition well_formed_timestamp :: "string \<Rightarrow> bool" where
  "well_formed_timestamp t = (CHR '':'' \<notin> set (split_first t) \<and> clock_time (time_component t))"

text \<open>The test of the specification, and the test the program makes.\<close>

definition exactly_midday :: "item_dict \<Rightarrow> bool" where
  "exactly_midday f =
     (case item_dt_txt f of None \<Rightarrow> False | Some t \<Rightarrow> time_component t = ''12:00:00'')"

definition contains_midday :: "item_dict \<Rightarrow> bool" where
  "contains_midday f =
     (case item_dt_txt f of None \<Rightarrow> False | Some t \<Rightarrow> contains ''12:00:00'' t)"

definition well_formed_entry :: "item_dict \<Rightarrow> bool" where
  "well_formed_entry f =
     (case item_dt_txt f of None \<Rightarrow> False | Some t \<Rightarrow> well_formed_timestamp t)"

text \<open>The first element that passes a test, the first element of all when none does.\<close>

definition first_or_head :: "('a \<Rightarrow> bool) \<Rightarrow> 'a list \<Rightarrow> 'a option" where
  "first_or_head P fs =
     (case find P fs of
        Some f \<Rightarrow> Some f
      | None \<Rightarrow> (case fs of [] \<Rightarrow> None | f0 # _ \<Rightarrow> Some f0))"

subsection \<open>What the HTTP library did\<close>

text \<open>The exception that the three calls of the \<open>try\<close> block raise, if one does.\<close>

definition raised :: "exn + response \<Rightarrow> exn option" where
  "raised got =
     (case got of
        Inl e \<Rightarrow> Some e
      | Inr response \<Rightarrow>
          (case resp_raise_for_status response of
             Some e \<Rightarrow> Some e
           | None \<Rightarrow> (case resp_json response of Inl e \<Rightarrow> Some e | Inr _ \<Rightarrow> None)))"

definition is_RequestException :: "exn \<Rightarrow> bool" where
  "is_RequestException e = (case e of RequestException _ \<Rightarrow> True | _ \<Rightarrow> False)"

text \<open>
  A call that ended as a network outcome: the answer of the server was received and
  decoded, or the library reported a failure of the transport, a timeout or an HTTP error
  status, each of which it raises as a \<open>RequestException\<close>.
\<close>

definition network_outcome :: "exn + response \<Rightarrow> bool" where
  "network_outcome got = (case raised got of None \<Rightarrow> True | Some e \<Rightarrow> is_RequestException e)"

text \<open>The request each fetch method sends.\<close>

definition weather_request :: "weather_cli \<Rightarrow> string \<Rightarrow> string \<Rightarrow> string \<Rightarrow> request" where
  "weather_request self key city units =
     \<lparr>req_url = self_base_url self @ ''/weather'',
      req_params = [(''q'', Str city), (''appid'', Str key), (''units'', Str units)],
      req_timeout = 10\<rparr>"

definition forecast_request ::
  "weather_cli \<Rightarrow> string \<Rightarrow> string \<Rightarrow> string \<Rightarrow> int \<Rightarrow> request" where
  "forecast_request self key city units days =
     \<lparr>req_url = self_base_url self @ ''/forecast'',
      req_params = [(''q'', Str city), (''appid'', Str key), (''units'', Str units),
                    (''cnt'', Num (days * 8))],
      req_timeout = 10\<rparr>"

section \<open>Example inputs\<close>

text \<open>
  Character tables that agree with the Unicode character database from U+0080 to U+00FF
  (the Latin-1 Supplement). Beyond, they take every character for uncased, printable and
  not a digit.
\<close>

definition latin1_tables :: unicode_tables where
  "latin1_tables =
     \<lparr>ucd_cased =
        (\<lambda>c. c \<in> {0xAA, 0xB5, 0xBA} \<or> (0xC0 \<le> c \<and> c \<le> 0xFF \<and> c \<noteq> 0xD7 \<and> c \<noteq> 0xF7)),
      ucd_case_ignorable = (\<lambda>c. c \<in> {0xA8, 0xAD, 0xAF, 0xB4, 0xB7, 0xB8}),
      ucd_title =
        (\<lambda>c. if c = 0xDF then [0x53, 0x73]
             else if c = 0xB5 then [0x39C]
             else if c = 0xFF then [0x178]
             else if 0xE0 \<le> c \<and> c \<le> 0xFE \<and> c \<noteq> 0xF7 then [c - 32]
             else [c]),
      ucd_lower = (\<lambda>c. if 0xC0 \<le> c \<and> c \<le> 0xDE \<and> c \<noteq> 0xD7 then [c + 32] else [c]),
      ucd_decimal = (\<lambda>c. None),
      ucd_printable = (\<lambda>c. 0xA1 \<le> c \<and> c \<noteq> 0xAD)\<rparr>"

text \<open>
  The city name of Sao Paulo spelt with U+00E3, a with tilde, for its second letter: in
  lower case, and as \<open>str.title\<close> returns it.
\<close>

definition sao_paulo :: string where
  "sao_paulo = ''s'' @ [CHR 0xC3, CHR 0xA3] @ ''o paulo''"

definition Sao_Paulo :: string where
  "Sao_Paulo = ''S'' @ [CHR 0xC3, CHR 0xA3] @ ''o Paulo''"

definition sample_item :: "string \<Rightarrow> string \<Rightarrow> item_dict" where
  "sample_item dt_txt temp =
     \<lparr>item_dt = None,
      item_main = Some \<lparr>main_temp = Some (PyFloat temp), main_feels_like = None,
                         main_humidity = Some (PyInt 50), main_pressure = None\<rparr>,
      item_weather = Some [\<lparr>weather_main = Some ''Clouds'',
                              weather_description = Some ''scattered clouds'',
                              weather_icon = None\<rparr>],
      item_dt_txt = Some dt_txt\<rparr>"

definition sample_bundle :: "item_dict list \<Rightarrow> data_dict" where
  "sample_bundle items =
     empty_data\<lparr>data_city := Some \<lparr>city_name = Some ''Oslo'', city_country = Some ''NO''\<rparr>,
                data_list := Some items\<rparr>"

text \<open>A document that has an \<open>error\<close> key beside the fields of a weather document.\<close>

definition error_and_weather :: data_dict where
  "error_and_weather = (get_demo_weather latin1_tables ''paris'')\<lparr>data_error := Some ''API request failed: timeout''\<rparr>"

definition demo_cli :: weather_cli where
  "demo_cli = \<lparr>self_api_key = None, self_base_url = ''http://api.openweathermap.org/data/2.5''\<rparr>"

definition live_cli :: weather_cli where
  "live_cli = \<lparr>self_api_key = Some ''secret'',
               self_base_url = ''http://api.openweathermap.org/data/2.5''\<rparr>"

definition timeout_get :: "request \<Rightarrow> exn + response" where
  "timeout_get req = Inl (RequestException ''Read timed out.'')"

definition interrupted_get :: "request \<Rightarrow> exn + response" where
  "interrupted_get req = Inl KeyboardInterrupt"

text \<open>Forecast entries: two days; an entry half a second after noon before the noon entry;
  seven days; forty entries of one day followed by six more days.\<close>

definition two_days :: "item_dict list" where
  "two_days =
     [sample_item ''2024-09-22 09:00:00'' ''9.0'', sample_item ''2024-09-22 12:00:00'' ''12.0'',
      sample_item ''2024-09-22 15:00:00'' ''15.0'', sample_item ''2024-09-23 00:00:00'' ''0.5'',
      sample_item ''2024-09-23 03:00:00'' ''3.0'']"

definition after_noon :: "item_dict list" where
  "after_noon =
     [sample_item ''2024-09-22 12:00:00.500'' ''11.0'', sample_item ''2024-09-22 12:00:00'' ''12.0'']"

definition seven_days :: "item_dict list" where
  "seven_days =
     map (\<lambda>d. sample_item d ''10.0'')
       [''2024-09-01 12:00:00'', ''2024-09-02 12:00:00'', ''2024-09-03 12:00:00'',
        ''2024-09-04 12:00:00'', ''2024-09-05 12:00:00'', ''2024-09-06 12:00:00'',
        ''2024-09-07 12:00:00'']"

definition crowded_first_day :: "item_dict list" where
  "crowded_first_day =
     replicate 40 (sample_item ''2024-09-01 00:00:00'' ''10.0'')
     @ map (\<lambda>d. sample_item d ''10.0'')
         [''2024-09-02 00:00:00'', ''2024-09-03 00:00:00'', ''2024-09-04 00:00:00'',
          ''2024-09-05 00:00:00'', ''2024-09-06 00:00:00'', ''2024-09-07 00:00:00'']"

text \<open>Runs of the program.\<close>

definition london_live :: args where
  "london_live = \<lparr>args_city = ''London'', args_forecast = False, args_units = ''metric'',
                   args_api_key = Some ''secret''\<rparr>"

definition paris_demo :: args where
  "paris_demo = \<lparr>args_city = ''paris'', args_forecast = True, args_units = ''metric'',
                  args_api_key = None\<rparr>"

definition first_warning :: string where
  "first_warning = warning_sign @ ''  Warning: No API key provided. Using demo mode with sample data.''"

text \<open>The user interrupts while the request is under way.\<close>

definition interrupted_fetch :: world where
  "interrupted_fetch =
     \<lparr>w_parse_args = Inr london_live, w_getenv = None, w_unicode = latin1_tables,
      w_requests_get = interrupted_get, w_print_fault = (\<lambda>text. None)\<rparr>"

text \<open>The response lacks the fields of a weather document.\<close>

definition empty_response :: world where
  "empty_response =
     \<lparr>w_parse_args = Inr london_live, w_getenv = None, w_unicode = latin1_tables,
      w_requests_get = (\<lambda>req. Inr \<lparr>resp_raise_for_status = None, resp_json = Inr empty_data\<rparr>),
      w_print_fault = (\<lambda>text. None)\<rparr>"

text \<open>The user interrupts while the constructor prints its warning.\<close>

definition interrupted_warning :: world where
  "interrupted_warning =
     \<lparr>w_parse_args = Inr paris_demo, w_getenv = None, w_unicode = latin1_tables,
      w_requests_get = timeout_get,
      w_print_fault = (\<lambda>text. if text = first_warning then Some (0, KeyboardInterrupt) else None)\<rparr>"

text \<open>
  Standard output encodes as ASCII, so that a \<open>print\<close> of text with a pictograph raises
  \<open>UnicodeEncodeError\<close> before it writes; the request times out.
\<close>

definition cannot_encode :: string where
  "cannot_encode =
     [CHR 0x27] @ ''ascii'' @ [CHR 0x27] @ '' codec can'' @ [CHR 0x27] @ ''t encode character ''
     @ [CHR 0x27, CHR 0x5C] @ ''u274c'' @ [CHR 0x27]
     @ '' in position 0: ordinal not in range(128)''"

definition ascii_stdout :: world where
  "ascii_stdout =
     \<lparr>w_parse_args = Inr london_live, w_getenv = None, w_unicode = latin1_tables,
      w_requests_get = timeout_get,
      w_print_fault =
        (\<lambda>text. if list_ex (\<lambda>b. 128 \<le> byte b) text then Some (0, OtherError cannot_encode)
                else None)\<rparr>"

section \<open>Lemmas\<close>

subsection \<open>Constants of the demo data and of the examples\<close>

lemma demo_dates:
  "strptime ucd ''2024-09-22'' = Inr (2024, 9, 22)" "strptime ucd ''2024-09-23'' = Inr (2024, 9, 23)"
  "strftime_A (2024, 9, 22) = ''Sunday''" "strftime_A (2024, 9, 23) = ''Monday''"
  by code_simp+

lemma demo_texts:
  "title ucd ''sunny'' = ''Sunny''" "title ucd ''partly cloudy'' = ''Partly Cloudy''"
  "title ucd ''clear sky'' = ''Clear Sky''"
  "str_int 60 = ''60''" "str_int 70 = ''70''" "str_int 65 = ''65''" "str_int 1013 = ''1013''"
  "str_int 10000 = ''10000''"
  "split_first ''2024-09-22 12:00:00'' = ''2024-09-22''"
  "split_first ''2024-09-23 12:00:00'' = ''2024-09-23''"
  "contains ''12:00:00'' ''2024-09-22 12:00:00''" "contains ''12:00:00'' ''2024-09-23 12:00:00''"
  by code_simp+


subsection \<open>The first loop computes the partition by date\<close>

lemma set_first_seen: "set (first_seen xs) = set xs"
  by (induction xs rule: first_seen.induct) auto

lemma dict_has_append_new: "dict_has (dict_append d k x) k' = dict_has d k'"
  by (induction d) (auto simp: dict_has_def dict_append_def)

lemma dict_append_absent: "\<not> dict_has d k \<Longrightarrow> dict_append d k x = d"
  by (induction d) (auto simp: dict_has_def dict_append_def)

lemma group_loop_general:
  assumes "\<forall>i\<in>set items. item_dt_txt i \<noteq> None"
  shows "group_loop daily items =
     Inr (map (\<lambda>(k, v). (k, v @ filter (\<lambda>i. entry_date i = k) items)) daily
          @ map (\<lambda>d. (d, filter (\<lambda>i. entry_date i = d) items))
              (first_seen (filter (\<lambda>d. \<not> dict_has daily d) (map entry_date items))))"
  using assms
proof (induction items arbitrary: daily)
  case Nil
  then show ?case by simp
next
  case (Cons item items)
  then obtain t where t: "item_dt_txt item = Some t" by auto
  let ?d = "split_first t"
  have d: "entry_date item = ?d" by (simp add: entry_date_def t)
  have rest: "\<forall>i\<in>set items. item_dt_txt i \<noteq> None" using Cons.prems by simp
  show ?case
  proof (cases "dict_has daily ?d")
    case True
    have "group_loop daily (item # items) = group_loop (dict_append daily ?d item) items"
      by (simp add: t True)
    also have "\<dots> = Inr (map (\<lambda>(k, v). (k, v @ filter (\<lambda>i. entry_date i = k) items)) (dict_append daily ?d item)
          @ map (\<lambda>d. (d, filter (\<lambda>i. entry_date i = d) items))
              (first_seen (filter (\<lambda>d. \<not> dict_has (dict_append daily ?d item) d) (map entry_date items))))"
      by (rule Cons.IH [OF rest])
    also have "map (\<lambda>(k, v). (k, v @ filter (\<lambda>i. entry_date i = k) items)) (dict_append daily ?d item)
       = map (\<lambda>(k, v). (k, v @ filter (\<lambda>i. entry_date i = k) (item # items))) daily"
      by (auto simp: dict_append_def d)
    also have "map (\<lambda>d. (d, filter (\<lambda>i. entry_date i = d) items))
              (first_seen (filter (\<lambda>d. \<not> dict_has (dict_append daily ?d item) d) (map entry_date items)))
      = map (\<lambda>d. (d, filter (\<lambda>i. entry_date i = d) (item # items)))
              (first_seen (filter (\<lambda>d. \<not> dict_has daily d) (map entry_date (item # items))))"
      using True by (auto simp: dict_has_append_new d set_first_seen)
    finally show ?thesis .
  next
    case False
    let ?daily' = "daily @ [(?d, [item])]"
    have step: "dict_append (dict_new daily ?d) ?d item = ?daily'"
      using False dict_append_absent [of daily ?d item]
      by (simp add: dict_new_def dict_append_def)
    have run: "group_loop daily (item # items) = group_loop ?daily' items"
      using step by (simp add: t False)
    have ih: "group_loop ?daily' items =
        Inr (map (\<lambda>(k, v). (k, v @ filter (\<lambda>i. entry_date i = k) items)) ?daily'
          @ map (\<lambda>d. (d, filter (\<lambda>i. entry_date i = d) items))
              (first_seen (filter (\<lambda>d. \<not> dict_has ?daily' d) (map entry_date items))))"
      by (rule Cons.IH [OF rest])
    have old: "map (\<lambda>(k, v). (k, v @ filter (\<lambda>i. entry_date i = k) items)) daily
       = map (\<lambda>(k, v). (k, v @ filter (\<lambda>i. entry_date i = k) (item # items))) daily"
      using False by (force simp: dict_has_def d)
    have unseen: "filter (\<lambda>d. \<not> dict_has ?daily' d) (map entry_date items)
       = filter (\<lambda>y. y \<noteq> ?d) (filter (\<lambda>d. \<not> dict_has daily d) (map entry_date items))"
      by (auto simp: dict_has_def intro!: filter_cong)
    have new: "map (\<lambda>d. (d, filter (\<lambda>i. entry_date i = d) items))
          (first_seen (filter (\<lambda>y. y \<noteq> ?d) (filter (\<lambda>d. \<not> dict_has daily d) (map entry_date items))))
      = map (\<lambda>d. (d, filter (\<lambda>i. entry_date i = d) (item # items)))
          (first_seen (filter (\<lambda>y. y \<noteq> ?d) (filter (\<lambda>d. \<not> dict_has daily d) (map entry_date items))))"
      by (auto simp: set_first_seen d)
    show ?thesis
      unfolding run ih unseen new
      using False old by (simp add: d)
  qed
qed

lemma group_loop_date_buckets:
  "\<forall>i\<in>set items. item_dt_txt i \<noteq> None \<Longrightarrow> group_loop [] items = Inr (date_buckets items)"
  using group_loop_general [of items "[]"] by (simp add: date_buckets_def dict_has_def)

lemma group_loop_Inr_dt_txt:
  "group_loop daily items = Inr r \<Longrightarrow> \<forall>i\<in>set items. item_dt_txt i \<noteq> None"
  by (induction items arbitrary: daily) (auto split: option.splits simp: Let_def)

lemma date_buckets_member:
  assumes "(d, fs) \<in> set (date_buckets items)"
  shows "fs \<noteq> [] \<and> set fs \<subseteq> set items \<and> (\<forall>f\<in>set fs. entry_date f = d)"
proof -
  from assms have d: "d \<in> set (map entry_date items)" and fs: "fs = filter (\<lambda>i. entry_date i = d) items"
    by (auto simp: date_buckets_def set_first_seen)
  from d obtain i where "i \<in> set items" "entry_date i = d" by auto
  then have "i \<in> set fs" using fs by simp
  then have "fs \<noteq> []" by (cases fs) simp_all
  then show ?thesis using fs by simp
qed


subsection \<open>The representative entry\<close>

lemma clock_timeD:
  "clock_time h \<Longrightarrow> \<exists>h1 h2 m1 m2 s1 s2. h = [h1, h2, CHR '':'', m1, m2, CHR '':'', s1, s2]
      \<and> is_digit h1 \<and> is_digit h2 \<and> is_digit m1 \<and> is_digit m2 \<and> is_digit s1 \<and> is_digit s2"
  by (auto simp: clock_time_def split: list.splits)

lemma contains_clock_time:
  assumes "clock_time h"
  shows "contains ''12:00:00'' h = (h = ''12:00:00'')"
proof -
  from clock_timeD [OF assms] obtain h1 h2 m1 m2 s1 s2 where
    h: "h = [h1, h2, CHR '':'', m1, m2, CHR '':'', s1, s2]" by blast
  show ?thesis unfolding h by auto
qed

lemma contains_skip_date:
  "CHR '':'' \<notin> set d \<Longrightarrow> contains ''12:00:00'' (d @ CHR '' '' # h) = contains ''12:00:00'' h"
proof (induction d)
  case Nil
  then show ?case by simp
next
  case (Cons c d)
  have "\<not> prefix ''12:00:00'' (c # d @ CHR '' '' # h)"
  proof (cases d)
    case Nil
    then show ?thesis by simp
  next
    case (Cons c2 d2)
    then show ?thesis using Cons.prems by (cases d2) auto
  qed
  then have "contains ''12:00:00'' (c # d @ CHR '' '' # h) = contains ''12:00:00'' (d @ CHR '' '' # h)"
    by (simp only: contains.simps simp_thms)
  with Cons show ?case by (simp only: append_Cons set_simps insert_iff de_Morgan_disj) simp
qed

lemma well_formed_contains:
  assumes "well_formed_timestamp t"
  shows "contains ''12:00:00'' t = (time_component t = ''12:00:00'')"
proof -
  let ?d = "takeWhile (\<lambda>c. c \<noteq> CHR '' '') t" and ?r = "dropWhile (\<lambda>c. c \<noteq> CHR '' '') t"
  have clock: "clock_time (drop 1 ?r)" and nocolon: "CHR '':'' \<notin> set ?d"
    using assms by (simp_all add: well_formed_timestamp_def time_component_def split_first_def)
  from clock_timeD [OF clock] have "drop 1 ?r \<noteq> []" by auto
  then have "?r \<noteq> []" by (auto simp del: dropWhile_eq_Nil_conv)
  then obtain c h where r: "?r = c # h" by (cases ?r) auto
  have "c = CHR '' ''" using hd_dropWhile [of "\<lambda>c. c \<noteq> CHR '' ''" t] \<open>?r \<noteq> []\<close> r by auto
  have t: "t = ?d @ CHR '' '' # h"
    using takeWhile_dropWhile_id [of "\<lambda>c. c \<noteq> CHR '' ''" t] r \<open>c = CHR '' ''\<close> by simp
  have "contains ''12:00:00'' t = contains ''12:00:00'' (?d @ CHR '' '' # h)"
    using t by simp
  also have "\<dots> = contains ''12:00:00'' h" by (rule contains_skip_date [OF nocolon])
  also have "\<dots> = (h = ''12:00:00'')" using clock r by (simp add: contains_clock_time)
  also have "\<dots> = (time_component t = ''12:00:00'')" using r by (simp add: time_component_def)
  finally show ?thesis .
qed

lemma next_midday_find:
  assumes "\<forall>f\<in>set fs. item_dt_txt f \<noteq> None"
  shows "next_midday fs d = Inr (case find contains_midday fs of Some f \<Rightarrow> f | None \<Rightarrow> d)"
  using assms by (induction fs) (auto simp: contains_midday_def)

lemma midday_forecast_first_or_head:
  assumes "\<forall>f\<in>set fs. item_dt_txt f \<noteq> None" "fs \<noteq> []"
  shows "\<exists>rep. first_or_head contains_midday fs = Some rep \<and> midday_forecast fs = Inr rep"
  using assms
  by (cases fs) (auto simp: midday_forecast_def first_item_def bind_def first_or_head_def
      next_midday_find simp del: next_midday.simps split: option.splits)

lemma find_cong_set: "(\<And>x. x \<in> set xs \<Longrightarrow> P x = Q x) \<Longrightarrow> find P xs = find Q xs"
  by (induction xs) auto

lemma first_or_head_well_formed:
  assumes "list_all well_formed_entry fs"
  shows "first_or_head contains_midday fs = first_or_head exactly_midday fs"
proof -
  have "contains_midday f = exactly_midday f" if "f \<in> set fs" for f
  proof -
    from assms that have "well_formed_entry f" by (simp add: list_all_iff)
    then show ?thesis
      by (auto simp: well_formed_entry_def contains_midday_def exactly_midday_def
          well_formed_contains split: option.splits)
  qed
  then have "find contains_midday fs = find exactly_midday fs"
    by (rule find_cong_set)
  then show ?thesis by (simp add: first_or_head_def)
qed


subsection \<open>The second loop appends one block for each bucket\<close>

lemma day_loop_blocks:
  "day_loop ucd units out bs = Inr r \<longleftrightarrow>
     (\<exists>blocks. list_all2 (\<lambda>b blk. day_block ucd units b = Inr blk) bs blocks \<and> r = out @ concat blocks)"
proof (induction bs arbitrary: out)
  case Nil
  then show ?case by auto
next
  case (Cons b bs)
  show ?case
  proof (cases "day_block ucd units b")
    case (Inl e)
    then show ?thesis by (auto simp: list_all2_Cons1)
  next
    case (Inr blk)
    then show ?thesis by (auto simp: Cons.IH list_all2_Cons1)
  qed
qed

lemma format_forecast_run:
  assumes "data_error data = None" "data_list data = Some xs"
    "\<forall>i\<in>set (take 40 xs). item_dt_txt i \<noteq> None"
  shows "format_forecast ucd data units =
     bind (forecast_header data) (\<lambda>output.
       day_loop ucd units output (take 5 (date_buckets (take 40 xs))))"
  using assms
  by (simp add: format_forecast_def getitem_def bind_def group_loop_date_buckets
      split: sum.splits)

lemma format_forecast_Inr_dt_txt:
  assumes "data_error data = None" "data_list data = Some xs" "format_forecast ucd data units = Inr out"
  shows "\<forall>i\<in>set (take 40 xs). item_dt_txt i \<noteq> None"
proof -
  from assms obtain daily where "group_loop [] (take 40 xs) = Inr daily"
    by (auto simp: format_forecast_def getitem_def bind_def split: sum.splits)
  then show ?thesis by (rule group_loop_Inr_dt_txt)
qed

lemma format_forecast_blocks:
  assumes "data_error data = None" "data_list data = Some xs"
    "\<forall>i\<in>set (take 40 xs). item_dt_txt i \<noteq> None"
  shows "format_forecast ucd data units = Inr out \<longleftrightarrow>
     (\<exists>header blocks. forecast_header data = Inr header
        \<and> list_all2 (\<lambda>bucket block. day_block ucd units bucket = Inr block)
             (take 5 (date_buckets (take 40 xs))) blocks
        \<and> out = header @ concat blocks)"
  unfolding format_forecast_run [OF assms]
  by (cases "forecast_header data") (auto simp: bind_def day_loop_blocks)


subsection \<open>The unit system enters the output through the labels\<close>

lemma day_block_parts:
  "\<exists>r. \<forall>units. day_block ucd units bucket =
     (case r of Inl e \<Rightarrow> Inl e | Inr (a, b) \<Rightarrow> Inr (a @ temp_unit units @ b))"
proof -
  obtain date forecasts where bucket: "bucket = (date, forecasts)" by (cases bucket)
  let ?r = "bind (midday_forecast forecasts) (\<lambda>midday.
        bind (strptime ucd date) (\<lambda>date_obj.
        bind (main_item (item_main midday) ''temp'' main_temp) (\<lambda>temp.
        bind (getitem ''weather'' (item_weather midday)) (\<lambda>weather.
        bind (first_item weather) (\<lambda>weather0.
        bind (getitem ''description'' (weather_description weather0)) (\<lambda>description.
        bind (main_item (item_main midday) ''humidity'' main_humidity) (\<lambda>humidity.
        Inr (nl @ tear_off_calendar @ '' '' @ strftime_A date_obj @ '', '' @ date @ nl
             @ ''   '' @ thermometer @ ''  '' @ str_num temp,
             nl @ ''   '' @ cloud @ ''  '' @ title ucd description @ nl
             @ ''   '' @ droplet @ '' '' @ str_num humidity @ ''% humidity'' @ nl))))))))"
  have "\<forall>units. day_block ucd units bucket =
     (case ?r of Inl e \<Rightarrow> Inl e | Inr (a, b) \<Rightarrow> Inr (a @ temp_unit units @ b))"
    by (simp add: bucket day_block_def bind_def split: sum.splits)
  then show ?thesis by blast
qed

lemma day_loop_parts:
  "\<exists>r. \<forall>units out. day_loop ucd units out buckets =
     (case r of Inl e \<Rightarrow> Inl e
      | Inr days \<Rightarrow> Inr (out @ concat (map (\<lambda>(a, b). a @ temp_unit units @ b) days)))"
proof (induction buckets)
  case Nil
  have "\<forall>units out. day_loop ucd units out [] =
     (case Inr [] of Inl e \<Rightarrow> Inl e
      | Inr days \<Rightarrow> Inr (out @ concat (map (\<lambda>(a, b). a @ temp_unit units @ b) days)))"
    by simp
  then show ?case by blast
next
  case (Cons bucket buckets)
  from day_block_parts [where bucket = bucket and ucd = ucd] obtain rb where
    rb: "\<And>units. day_block ucd units bucket =
          (case rb of Inl e \<Rightarrow> Inl e | Inr (a, b) \<Rightarrow> Inr (a @ temp_unit units @ b))"
    by blast
  from Cons.IH obtain rs where
    rs: "\<And>units out. day_loop ucd units out buckets =
          (case rs of Inl e \<Rightarrow> Inl e
           | Inr days \<Rightarrow> Inr (out @ concat (map (\<lambda>(a, b). a @ temp_unit units @ b) days)))"
    by blast
  let ?r = "case rb of Inl e \<Rightarrow> Inl e
            | Inr part \<Rightarrow> (case rs of Inl e \<Rightarrow> Inl e | Inr days \<Rightarrow> Inr (part # days))"
  have "\<forall>units out. day_loop ucd units out (bucket # buckets) =
     (case ?r of Inl e \<Rightarrow> Inl e
      | Inr days \<Rightarrow> Inr (out @ concat (map (\<lambda>(a, b). a @ temp_unit units @ b) days)))"
    by (simp add: rb rs split: sum.splits prod.splits)
  then show ?case by blast
qed

lemma format_forecast_parts:
  assumes "data_error data = None"
  shows "\<exists>parts. \<forall>units. format_forecast ucd data units =
     (case parts of Inl e \<Rightarrow> Inl e
      | Inr (header, days) \<Rightarrow>
          Inr (header @ concat (map (\<lambda>(a, b). a @ temp_unit units @ b) days)))"
proof -
  let ?buckets = "bind (forecast_header data) (\<lambda>output.
     bind (getitem ''list'' (data_list data)) (\<lambda>list.
     bind (group_loop [] (take 40 list)) (\<lambda>daily. Inr (output, take 5 daily))))"
  show ?thesis
  proof (cases ?buckets)
    case (Inl e)
    then have "\<forall>units. format_forecast ucd data units =
       (case Inl e of Inl e \<Rightarrow> Inl e
        | Inr (header, days) \<Rightarrow>
            Inr (header @ concat (map (\<lambda>(a, b). a @ temp_unit units @ b) days)))"
      using assms by (auto simp: format_forecast_def bind_def split: sum.splits)
    then show ?thesis by blast
  next
    case (Inr p)
    obtain hdr buckets where p: "p = (hdr, buckets)" by (cases p)
    from day_loop_parts [where buckets = buckets and ucd = ucd] obtain rs where
      rs: "\<And>units out. day_loop ucd units out buckets =
          (case rs of Inl e \<Rightarrow> Inl e
           | Inr days \<Rightarrow> Inr (out @ concat (map (\<lambda>(a, b). a @ temp_unit units @ b) days)))"
      by blast
    have run: "format_forecast ucd data units = day_loop ucd units hdr buckets" for units
      using assms Inr p by (auto simp: format_forecast_def bind_def split: sum.splits)
    have "\<forall>units. format_forecast ucd data units =
       (case map_sum id (Pair hdr) rs of Inl e \<Rightarrow> Inl e
        | Inr (header, days) \<Rightarrow>
            Inr (header @ concat (map (\<lambda>(a, b). a @ temp_unit units @ b) days)))"
      by (simp add: run rs split: sum.splits)
    then show ?thesis by blast
  qed
qed

lemma format_current_weather_parts:
  assumes "data_error data = None"
  shows "\<exists>parts. \<forall>units. format_current_weather ucd data units =
     (case parts of Inl e \<Rightarrow> Inl e
      | Inr (a, b, c, d) \<Rightarrow>
          Inr (a @ temp_unit units @ b @ temp_unit units @ c @ speed_unit units @ d))"
proof -
  let ?r = "bind (getitem ''name'' (data_name data)) (\<lambda>name.
          bind (main_item (data_main data) ''temp'' main_temp) (\<lambda>temp.
          bind (main_item (data_main data) ''feels_like'' main_feels_like) (\<lambda>feels_like.
          bind (getitem ''weather'' (data_weather data)) (\<lambda>weather.
          bind (first_item weather) (\<lambda>weather0.
          bind (getitem ''description'' (weather_description weather0)) (\<lambda>description.
          bind (main_item (data_main data) ''humidity'' main_humidity) (\<lambda>humidity.
          bind (main_item (data_main data) ''pressure'' main_pressure) (\<lambda>pressure.
          bind (getitem ''wind'' (data_wind data)) (\<lambda>wind.
          bind (getitem ''speed'' (wind_speed wind)) (\<lambda>speed.
          Inr (nl @ sun_behind_cloud @ ''  Current Weather for '' @ name @ '', ''
                 @ get_default (sys_country (get_default (data_sys data) empty_sys)) ''N/A'' @ nl
               @ replicate 50 CHR ''='' @ nl
               @ thermometer @ ''  Temperature: '' @ str_num temp,
               '' (feels like '' @ str_num feels_like,
               '')'' @ nl
               @ cloud @ ''  Condition: '' @ title ucd description @ nl
               @ droplet @ '' Humidity: '' @ str_num humidity @ ''%'' @ nl
               @ down_button @ '' Pressure: '' @ str_num pressure @ '' hPa'' @ nl
               @ dashing_away @ '' Wind: '' @ str_num speed @ '' '',
               nl @ eye @ ''  Visibility: ''
                 @ (case data_visibility data of None \<Rightarrow> ''N/A'' | Some v \<Rightarrow> str_num v)
                 @ '' meters'' @ demo_note data @ nl)))))))))))"
  have "\<forall>units. format_current_weather ucd data units =
     (case ?r of Inl e \<Rightarrow> Inl e
      | Inr (a, b, c, d) \<Rightarrow>
          Inr (a @ temp_unit units @ b @ temp_unit units @ c @ speed_unit units @ d))"
    using assms by (simp add: format_current_weather_def bind_def split: sum.splits)
  then show ?thesis by blast
qed


subsection \<open>What each formatter returns\<close>

lemma format_current_weather_Inr_iff:
  assumes "data_error data = None"
  shows "format_current_weather ucd data units = Inr out \<longleftrightarrow>
     (\<exists>name m temp feels_like w0 ws description humidity pressure wind speed.
        data_name data = Some name \<and> data_main data = Some m
        \<and> main_temp m = Some temp \<and> main_feels_like m = Some feels_like
        \<and> data_weather data = Some (w0 # ws) \<and> weather_description w0 = Some description
        \<and> main_humidity m = Some humidity \<and> main_pressure m = Some pressure
        \<and> data_wind data = Some wind \<and> wind_speed wind = Some speed
        \<and> out = nl @ sun_behind_cloud @ ''  Current Weather for '' @ name @ '', ''
                  @ get_default (sys_country (get_default (data_sys data) empty_sys)) ''N/A'' @ nl
                @ replicate 50 CHR ''='' @ nl
                @ thermometer @ ''  Temperature: '' @ str_num temp @ temp_unit units
                  @ '' (feels like '' @ str_num feels_like @ temp_unit units @ '')'' @ nl
                @ cloud @ ''  Condition: '' @ title ucd description @ nl
                @ droplet @ '' Humidity: '' @ str_num humidity @ ''%'' @ nl
                @ down_button @ '' Pressure: '' @ str_num pressure @ '' hPa'' @ nl
                @ dashing_away @ '' Wind: '' @ str_num speed @ '' '' @ speed_unit units @ nl
                @ eye @ ''  Visibility: ''
                  @ (case data_visibility data of None \<Rightarrow> ''N/A'' | Some v \<Rightarrow> str_num v)
                  @ '' meters'' @ demo_note data @ nl)"
  using assms
  by (auto simp: format_current_weather_def bind_def getitem_def main_item_def first_item_def
      split: option.splits list.splits)

lemma day_block_Inr_iff:
  "day_block ucd units (date, forecasts) = Inr block \<longleftrightarrow>
     (\<exists>midday date_obj m temp w0 ws description humidity.
        midday_forecast forecasts = Inr midday \<and> strptime ucd date = Inr date_obj
        \<and> item_main midday = Some m \<and> main_temp m = Some temp
        \<and> item_weather midday = Some (w0 # ws) \<and> weather_description w0 = Some description
        \<and> main_humidity m = Some humidity
        \<and> block = nl @ tear_off_calendar @ '' '' @ strftime_A date_obj @ '', '' @ date @ nl
                  @ ''   '' @ thermometer @ ''  '' @ str_num temp @ temp_unit units @ nl
                  @ ''   '' @ cloud @ ''  '' @ title ucd description @ nl
                  @ ''   '' @ droplet @ '' '' @ str_num humidity @ ''% humidity'' @ nl)"
  by (auto simp: day_block_def bind_def getitem_def main_item_def first_item_def
      split: option.splits list.splits sum.splits)

lemma format_forecast_Inr_iff:
  assumes "data_error data = None"
  shows "format_forecast ucd data units = Inr out \<longleftrightarrow>
     (\<exists>header entries daily blocks.
        forecast_header data = Inr header \<and> data_list data = Some entries
        \<and> group_loop [] (take 40 entries) = Inr daily
        \<and> list_all2 (\<lambda>bucket block. day_block ucd units bucket = Inr block) (take 5 daily) blocks
        \<and> out = header @ concat blocks)"
  using assms
  by (auto simp: format_forecast_def bind_def getitem_def day_loop_blocks
      split: option.splits sum.splits)


subsection \<open>The \<open>try\<close> blocks\<close>

lemma request_failed_cases:
  "request_failed (RequestException m) = Inr (empty_data\<lparr>data_error := Some (''API request failed: '' @ m)\<rparr>)"
  "\<not> is_RequestException e \<Longrightarrow> request_failed e = Inl e"
  by (auto simp: request_failed_def is_RequestException_def split: exn.splits)

lemma try_request_RequestException:
  "raised got = Some (RequestException m) \<Longrightarrow>
     try_request got = Inr (empty_data\<lparr>data_error := Some (''API request failed: '' @ m)\<rparr>)"
  by (auto simp: raised_def try_request_def request_failed_cases split: sum.splits option.splits)

lemma try_request_Inl:
  "try_request got = Inl e \<Longrightarrow> raised got = Some e \<and> \<not> is_RequestException e"
  by (auto simp: raised_def try_request_def request_failed_def is_RequestException_def
      split: sum.splits option.splits exn.splits)

lemma try_request_other:
  "raised got = Some e \<Longrightarrow> \<not> is_RequestException e \<Longrightarrow> try_request got = Inl e"
  by (auto simp: raised_def try_request_def request_failed_cases split: sum.splits option.splits)

lemma try_request_None:
  "raised got = None \<Longrightarrow>
     \<exists>response document. got = Inr response \<and> resp_json response = Inr document
        \<and> try_request got = Inr document"
  by (auto simp: raised_def try_request_def split: sum.splits option.splits)

lemma live_fetch:
  assumes "self_api_key self = Some key" "key \<noteq> []"
  shows "get_current_weather ucd self requests_get city units
           = ([weather_request self key city units],
              try_request (requests_get (weather_request self key city units)))"
    and "get_forecast ucd self requests_get city units days
           = ([forecast_request self key city units days],
              try_request (requests_get (forecast_request self key city units days)))"
  using assms
  by (simp_all add: get_current_weather_def get_forecast_def weather_request_def
      forecast_request_def Let_def)

section \<open>Properties\<close>

subsection \<open>The representative entry of a day\<close>

text \<open>
  C1, as the program has it. For every forecast document and every bucket that
  \<open>format_forecast\<close> retains (one of the first 5 buckets built from the first 40 entries),
  the bucket is not empty and the representative entry is the first entry of the bucket
  whose timestamp text contains \<open>12:00:00\<close>; when no entry's text contains it, it is the
  first entry of the bucket in original order. When every timestamp of the bucket has the
  form \<open>date HH:MM:SS\<close>, this is the first entry whose time component is exactly
  \<open>12:00:00\<close>, or else the first entry.
\<close>

theorem representative_is_first_containing_midday:
  assumes "data_list data = Some xs" and "group_loop [] (take 40 xs) = Inr daily"
    and "(date, forecasts) \<in> set (take 5 daily)"
  shows "\<exists>rep. midday_forecast forecasts = Inr rep
           \<and> first_or_head contains_midday forecasts = Some rep
           \<and> (list_all well_formed_entry forecasts
                \<longrightarrow> first_or_head exactly_midday forecasts = Some rep)"
proof -
  have t: "\<forall>i\<in>set (take 40 xs). item_dt_txt i \<noteq> None"
    using assms(2) by (rule group_loop_Inr_dt_txt)
  have "daily = date_buckets (take 40 xs)"
    using assms(2) group_loop_date_buckets [OF t] by simp
  then have "(date, forecasts) \<in> set (date_buckets (take 40 xs))"
    using assms(3) by (auto dest: in_set_takeD)
  from date_buckets_member [OF this] have ne: "forecasts \<noteq> []"
    and all: "\<forall>f\<in>set forecasts. item_dt_txt f \<noteq> None"
    using t by auto
  from midday_forecast_first_or_head [OF all ne] obtain rep where
    rep: "first_or_head contains_midday forecasts = Some rep" "midday_forecast forecasts = Inr rep"
    by blast
  then show ?thesis
    using first_or_head_well_formed [of forecasts] by auto
qed

theorem representative_is_first_containing_midday_witness:
  "data_list (sample_bundle two_days) = Some two_days
   \<and> group_loop [] (take 40 two_days)
       = Inr [(''2024-09-22'', take 3 two_days), (''2024-09-23'', drop 3 two_days)]
   \<and> midday_forecast (take 3 two_days) = Inr (sample_item ''2024-09-22 12:00:00'' ''12.0'')
   \<and> first_or_head exactly_midday (take 3 two_days)
       = Some (sample_item ''2024-09-22 12:00:00'' ''12.0'')
   \<and> midday_forecast (drop 3 two_days) = Inr (sample_item ''2024-09-23 00:00:00'' ''0.5'')
   \<and> first_or_head exactly_midday (drop 3 two_days)
       = Some (sample_item ''2024-09-23 00:00:00'' ''0.5'')"
proof -
  have l: "data_list (sample_bundle two_days) = Some two_days"
    by (simp add: sample_bundle_def empty_data_def)
  have g: "group_loop [] (take 40 two_days)
             = Inr [(''2024-09-22'', take 3 two_days), (''2024-09-23'', drop 3 two_days)]"
    by code_simp
  have m1: "(''2024-09-22'', take 3 two_days)
              \<in> set (take 5 [(''2024-09-22'', take 3 two_days), (''2024-09-23'', drop 3 two_days)])"
    and m2: "(''2024-09-23'', drop 3 two_days)
              \<in> set (take 5 [(''2024-09-22'', take 3 two_days), (''2024-09-23'', drop 3 two_days)])"
    by simp_all
  have w1: "list_all well_formed_entry (take 3 two_days)"
    and w2: "list_all well_formed_entry (drop 3 two_days)"
    by code_simp+
  have c1: "first_or_head contains_midday (take 3 two_days)
              = Some (sample_item ''2024-09-22 12:00:00'' ''12.0'')"
    and c2: "first_or_head contains_midday (drop 3 two_days)
              = Some (sample_item ''2024-09-23 00:00:00'' ''0.5'')"
    by code_simp+
  show ?thesis
    using l g w1 w2 c1 c2
      representative_is_first_containing_midday [OF l g m1]
      representative_is_first_containing_midday [OF l g m2]
    by auto
qed

text \<open>
  C1 as stated, with the time component compared for equality, fails on a bucket whose
  first entry is stamped \<open>12:00:00.500\<close> and whose second entry is stamped \<open>12:00:00\<close>:
  the program picks the first, the only entry at exactly \<open>12:00:00\<close> is the second.
\<close>

theorem fraction_after_noon_is_chosen:
  "group_loop [] (take 40 after_noon) = Inr [(''2024-09-22'', after_noon)]
   \<and> midday_forecast after_noon = Inr (sample_item ''2024-09-22 12:00:00.500'' ''11.0'')
   \<and> first_or_head exactly_midday after_noon = Some (sample_item ''2024-09-22 12:00:00'' ''12.0'')
   \<and> sample_item ''2024-09-22 12:00:00.500'' ''11.0'' \<noteq> sample_item ''2024-09-22 12:00:00'' ''12.0''"
  by code_simp

subsection \<open>Grouping and the cap of five days\<close>

text \<open>
  C2. For every forecast document whose first 40 entries have a timestamp, the first
  loop of \<open>format_forecast\<close> computes the partition of the first 40 entries by the date
  prefix of their timestamp, the buckets in the order in which each date is first
  encountered and each bucket in the original order of its entries. The output is the
  header followed by one block for each of the first 5 buckets, in that order; later
  buckets are not rendered, and entries after the 40th have no influence on the result.
\<close>

theorem forecast_groups_first_40_and_renders_first_5:
  assumes "data_error data = None" and "data_list data = Some xs"
    and "\<forall>i\<in>set (take 40 xs). item_dt_txt i \<noteq> None"
  shows "group_loop [] (take 40 xs) = Inr (date_buckets (take 40 xs))
       \<and> format_forecast ucd data units =
           bind (forecast_header data) (\<lambda>output.
             day_loop ucd units output (take 5 (date_buckets (take 40 xs))))
       \<and> (\<forall>out. format_forecast ucd data units = Inr out \<longleftrightarrow>
             (\<exists>header blocks. forecast_header data = Inr header
                \<and> list_all2 (\<lambda>bucket block. day_block ucd units bucket = Inr block)
                     (take 5 (date_buckets (take 40 xs))) blocks
                \<and> out = header @ concat blocks))
       \<and> (\<forall>ys. take 40 ys = take 40 xs \<longrightarrow>
             format_forecast ucd (data\<lparr>data_list := Some ys\<rparr>) units = format_forecast ucd data units)"
proof -
  have later: "format_forecast ucd (data\<lparr>data_list := Some ys\<rparr>) units = format_forecast ucd data units"
    if "take 40 ys = take 40 xs" for ys
    using assms(1,2) that
    by (simp add: format_forecast_def forecast_header_def demo_note_def getitem_def bind_def)
  show ?thesis
    using group_loop_date_buckets [OF assms(3)] format_forecast_run [OF assms]
      format_forecast_blocks [OF assms] later
    by blast
qed

theorem forecast_groups_first_40_and_renders_first_5_witness:
  "data_error (sample_bundle two_days) = None
   \<and> data_list (sample_bundle two_days) = Some two_days
   \<and> group_loop [] (take 40 two_days)
       = Inr [(''2024-09-22'', take 3 two_days), (''2024-09-23'', drop 3 two_days)]
   \<and> format_forecast latin1_tables (sample_bundle two_days) ''metric''
       = bind (forecast_header (sample_bundle two_days)) (\<lambda>output.
           day_loop latin1_tables ''metric'' output
             [(''2024-09-22'', take 3 two_days), (''2024-09-23'', drop 3 two_days)])"
proof -
  have e: "data_error (sample_bundle two_days) = None"
    and l: "data_list (sample_bundle two_days) = Some two_days"
    by (simp_all add: sample_bundle_def empty_data_def)
  have t: "\<forall>i\<in>set (take 40 two_days). item_dt_txt i \<noteq> None"
    by (simp add: two_days_def sample_item_def)
  have b: "date_buckets (take 40 two_days)
             = [(''2024-09-22'', take 3 two_days), (''2024-09-23'', drop 3 two_days)]"
    by code_simp
  show ?thesis
    using e l b forecast_groups_first_40_and_renders_first_5
      [OF e l t, where ucd = latin1_tables and units = "''metric''"]
    by simp
qed

text \<open>
  C3, as the program has it. For every forecast document whose first 40 entries span 7
  distinct dates (at least 5 suffice) and on which \<open>format_forecast\<close> returns, the output
  is the header followed by exactly 5 day blocks, those of the first 5 dates in the order
  of first encounter.
\<close>

theorem five_day_blocks_when_first_40_span_five_dates:
  assumes "data_error data = None" and "data_list data = Some xs"
    and "5 \<le> length (first_seen (map entry_date (take 40 xs)))"
    and "format_forecast ucd data units = Inr out"
  shows "\<exists>header blocks. forecast_header data = Inr header \<and> out = header @ concat blocks
           \<and> length blocks = 5
           \<and> list_all2 (\<lambda>bucket block. day_block ucd units bucket = Inr block)
                (take 5 (date_buckets (take 40 xs))) blocks
           \<and> map fst (take 5 (date_buckets (take 40 xs)))
                = take 5 (first_seen (map entry_date (take 40 xs)))"
proof -
  have t: "\<forall>i\<in>set (take 40 xs). item_dt_txt i \<noteq> None"
    using assms(1,2,4) by (rule format_forecast_Inr_dt_txt)
  from assms(4) format_forecast_blocks [OF assms(1,2) t] obtain header blocks where
    h: "forecast_header data = Inr header"
    and b: "list_all2 (\<lambda>bucket block. day_block ucd units bucket = Inr block)
             (take 5 (date_buckets (take 40 xs))) blocks"
    and o: "out = header @ concat blocks"
    by blast
  have keys: "map fst (date_buckets (take 40 xs)) = first_seen (map entry_date (take 40 xs))"
    by (simp add: date_buckets_def comp_def)
  have "length blocks = length (take 5 (date_buckets (take 40 xs)))"
    using list_all2_lengthD [OF b] by simp
  also have "\<dots> = 5"
    using assms(3) by (simp add: date_buckets_def)
  finally have n: "length blocks = 5" .
  have "map fst (take 5 (date_buckets (take 40 xs)))
          = take 5 (first_seen (map entry_date (take 40 xs)))"
    using keys by (simp add: take_map [symmetric])
  with h b o n show ?thesis by blast
qed

theorem five_day_blocks_when_first_40_span_five_dates_witness:
  "data_error (sample_bundle seven_days) = None
   \<and> data_list (sample_bundle seven_days) = Some seven_days
   \<and> length (first_seen (map entry_date (take 40 seven_days))) = 7
   \<and> (\<exists>header blocks out. forecast_header (sample_bundle seven_days) = Inr header
         \<and> format_forecast latin1_tables (sample_bundle seven_days) ''metric'' = Inr out
         \<and> out = header @ concat blocks \<and> length blocks = 5
         \<and> map fst (take 5 (date_buckets (take 40 seven_days)))
              = [''2024-09-01'', ''2024-09-02'', ''2024-09-03'', ''2024-09-04'', ''2024-09-05''])"
proof -
  have e: "data_error (sample_bundle seven_days) = None"
    and l: "data_list (sample_bundle seven_days) = Some seven_days"
    by (simp_all add: sample_bundle_def empty_data_def)
  have n: "length (first_seen (map entry_date (take 40 seven_days))) = 7"
    by code_simp
  then have n5: "5 \<le> length (first_seen (map entry_date (take 40 seven_days)))"
    by simp
  have k: "take 5 (first_seen (map entry_date (take 40 seven_days)))
             = [''2024-09-01'', ''2024-09-02'', ''2024-09-03'', ''2024-09-04'', ''2024-09-05'']"
    by code_simp
  have "\<not> isl (format_forecast latin1_tables (sample_bundle seven_days) ''metric'')"
    by code_simp
  then obtain out where o: "format_forecast latin1_tables (sample_bundle seven_days) ''metric'' = Inr out"
    by (cases "format_forecast latin1_tables (sample_bundle seven_days) ''metric''") auto
  show ?thesis
    using e l n k o five_day_blocks_when_first_40_span_five_dates [OF e l n5 o]
    by auto
qed

text \<open>
  C3 as stated, for every sequence that spans 7 dates, fails when the dates after the
  first do not occur among the first 40 entries: 40 entries of one date followed by one
  entry for each of six more dates give an output with one day block.
\<close>

theorem forty_entries_of_one_date_leave_one_block:
  "length (first_seen (map entry_date crowded_first_day)) = 7
   \<and> format_forecast latin1_tables (sample_bundle crowded_first_day) ''metric''
       = Inr ((nl @ calendar @ '' 5-Day Weather Forecast for Oslo, NO'' @ nl
               @ replicate 60 CHR ''='' @ nl)
            @ (nl @ tear_off_calendar @ '' Sunday, 2024-09-01'' @ nl
               @ ''   '' @ thermometer @ ''  10.0'' @ degree_sign @ ''C'' @ nl
               @ ''   '' @ cloud @ ''  Scattered Clouds'' @ nl
               @ ''   '' @ droplet @ '' 50% humidity'' @ nl))"
  by code_simp

subsection \<open>The fetch methods in live mode\<close>

text \<open>
  C4. With a non-empty API key, for every city, every unit system and every network
  outcome (the call of the HTTP library ends with a decoded answer, or with a transport
  failure, a timeout or an HTTP error status, which the library raises as a
  \<open>RequestException\<close>), \<open>get_current_weather\<close> and \<open>get_forecast\<close> send exactly one
  request and return a document: no exception leaves them. On a failure the document is
  \<open>{'error': 'API request failed: ' + message}\<close>, with the message of the library; on an
  answer it is the document that \<open>json\<close> returned.
\<close>

theorem live_fetch_returns_record_or_error:
  assumes "self_api_key self = Some key" and "key \<noteq> []"
    and "\<forall>req. network_outcome (requests_get req)"
  shows "fst (get_current_weather ucd self requests_get city units)
           = [weather_request self key city units]
       \<and> fst (get_forecast ucd self requests_get city units days)
           = [forecast_request self key city units days]
       \<and> (\<exists>document. snd (get_current_weather ucd self requests_get city units) = Inr document)
       \<and> (\<exists>document. snd (get_forecast ucd self requests_get city units days) = Inr document)
       \<and> (\<forall>m. raised (requests_get (weather_request self key city units))
                 = Some (RequestException m)
              \<longrightarrow> snd (get_current_weather ucd self requests_get city units)
                   = Inr (empty_data\<lparr>data_error := Some (''API request failed: '' @ m)\<rparr>))
       \<and> (\<forall>m. raised (requests_get (forecast_request self key city units days))
                 = Some (RequestException m)
              \<longrightarrow> snd (get_forecast ucd self requests_get city units days)
                   = Inr (empty_data\<lparr>data_error := Some (''API request failed: '' @ m)\<rparr>))
       \<and> (raised (requests_get (weather_request self key city units)) = None
              \<longrightarrow> (\<exists>response document.
                     requests_get (weather_request self key city units) = Inr response
                     \<and> resp_json response = Inr document
                     \<and> snd (get_current_weather ucd self requests_get city units) = Inr document))
       \<and> (raised (requests_get (forecast_request self key city units days)) = None
              \<longrightarrow> (\<exists>response document.
                     requests_get (forecast_request self key city units days) = Inr response
                     \<and> resp_json response = Inr document
                     \<and> snd (get_forecast ucd self requests_get city units days) = Inr document))"
proof -
  have doc: "\<exists>document. try_request (requests_get req) = Inr document" for req
  proof (cases "try_request (requests_get req)")
    case (Inl e)
    then have "raised (requests_get req) = Some e" "\<not> is_RequestException e"
      using try_request_Inl by blast+
    moreover have "network_outcome (requests_get req)"
      using assms(3) by simp
    ultimately show ?thesis
      by (simp add: network_outcome_def)
  next
    case (Inr document)
    then show ?thesis by blast
  qed
  show ?thesis
    unfolding live_fetch [OF assms(1,2)] fst_conv snd_conv
    using try_request_None doc by (simp add: try_request_RequestException)
qed

theorem live_fetch_returns_record_or_error_witness:
  "self_api_key live_cli = Some ''secret''
   \<and> network_outcome (timeout_get (weather_request live_cli ''secret'' ''London'' ''metric''))
   \<and> fst (get_current_weather latin1_tables live_cli timeout_get ''London'' ''metric'')
       = [weather_request live_cli ''secret'' ''London'' ''metric'']
   \<and> raised (timeout_get (weather_request live_cli ''secret'' ''London'' ''metric''))
       = Some (RequestException ''Read timed out.'')
   \<and> snd (get_current_weather latin1_tables live_cli timeout_get ''London'' ''metric'')
       = Inr (empty_data\<lparr>data_error := Some ''API request failed: Read timed out.''\<rparr>)"
proof -
  have k: "self_api_key live_cli = Some ''secret''" "''secret'' \<noteq> []"
    by (simp_all add: live_cli_def)
  have n: "\<forall>req. network_outcome (timeout_get req)"
    by (simp add: network_outcome_def raised_def timeout_get_def is_RequestException_def)
  have r: "raised (timeout_get (weather_request live_cli ''secret'' ''London'' ''metric''))
             = Some (RequestException ''Read timed out.'')"
    by (simp add: raised_def timeout_get_def)
  show ?thesis
    using k n r live_fetch_returns_record_or_error
      [OF k n, where ucd = latin1_tables and city = "''London''" and units = "''metric''"
        and days = 5]
    by simp
qed

text \<open>
  A user interrupt is not a network outcome. The \<open>KeyboardInterrupt\<close> it raises in
  \<open>requests.get\<close> passes through both methods, to the handler of \<open>main\<close>.
\<close>

lemma interrupt_passes_through_live_fetch:
  "truthy (self_api_key live_cli)
   \<and> get_current_weather ucd live_cli interrupted_get ''London'' ''metric''
       = ([weather_request live_cli ''secret'' ''London'' ''metric''], Inl KeyboardInterrupt)
   \<and> get_forecast ucd live_cli interrupted_get ''London'' ''metric'' 5
       = ([forecast_request live_cli ''secret'' ''London'' ''metric'' 5], Inl KeyboardInterrupt)"
  by (simp add: live_cli_def truthy_def get_current_weather_def get_forecast_def
      weather_request_def forecast_request_def interrupted_get_def try_request_def
      request_failed_def)

subsection \<open>Error documents\<close>

text \<open>
  C5. Applied to a document that has an \<open>error\<close> key, \<open>format_current_weather\<close> and
  \<open>format_forecast\<close> return, for every unit system, the error mark followed by
  \<open>Error:\<close> and the message, and nothing else: no other field of the document is read or
  rendered, whatever the document holds. The output is one line when the message is.
\<close>

theorem error_document_gives_error_line:
  assumes "data_error data = Some message"
  shows "format_current_weather ucd data units = Inr (cross_mark @ '' Error: '' @ message)
       \<and> format_forecast ucd data units = Inr (cross_mark @ '' Error: '' @ message)
       \<and> (CHR 0x0A \<notin> set message \<longrightarrow> CHR 0x0A \<notin> set (cross_mark @ '' Error: '' @ message))"
  using assms by (simp add: format_current_weather_def format_forecast_def cross_mark_def)

theorem error_document_gives_error_line_witness:
  "data_error error_and_weather = Some ''API request failed: timeout''
   \<and> format_current_weather latin1_tables error_and_weather ''metric''
       = Inr (cross_mark @ '' Error: API request failed: timeout'')
   \<and> format_forecast latin1_tables error_and_weather ''imperial''
       = Inr (cross_mark @ '' Error: API request failed: timeout'')
   \<and> CHR 0x0A \<notin> set ''API request failed: timeout''
   \<and> CHR 0x0A \<notin> set (cross_mark @ '' Error: API request failed: timeout'')"
proof -
  have h: "data_error error_and_weather = Some ''API request failed: timeout''"
    by (simp add: error_and_weather_def)
  have n: "CHR 0x0A \<notin> set ''API request failed: timeout''"
    by simp
  show ?thesis
    using h n
      error_document_gives_error_line [OF h, where ucd = latin1_tables and units = "''metric''"]
      error_document_gives_error_line [OF h, where ucd = latin1_tables and units = "''imperial''"]
    by simp
qed

subsection \<open>Demo mode\<close>

text \<open>
  C6. When no API key is configured (\<open>self.api_key\<close> is \<open>None\<close> or empty), both fetch
  methods send no request and return a value that is a function of the city alone: it
  does not depend on what the network would answer, so two calls with the same arguments
  return the same result. The result has \<open>demo\<close> set to \<open>True\<close>, and its city name is
  \<open>city.title()\<close>, for every city string and whatever the character tables beyond ASCII.
\<close>

theorem demo_mode_deterministic_and_flagged:
  assumes "\<not> truthy (self_api_key self)"
  shows "get_current_weather ucd self requests_get city units = ([], Inr (get_demo_weather ucd city))
       \<and> get_forecast ucd self requests_get city units days = ([], Inr (get_demo_forecast ucd city))
       \<and> get_current_weather ucd self requests_get' city units
           = get_current_weather ucd self requests_get city units
       \<and> get_forecast ucd self requests_get' city units days
           = get_forecast ucd self requests_get city units days
       \<and> data_demo (get_demo_weather ucd city) = Some True
       \<and> data_demo (get_demo_forecast ucd city) = Some True
       \<and> data_name (get_demo_weather ucd city) = Some (title ucd city)
       \<and> data_city (get_demo_forecast ucd city)
           = Some \<lparr>city_name = Some (title ucd city), city_country = Some ''DEMO''\<rparr>"
  using assms
  by (simp add: get_current_weather_def get_forecast_def truthy_def get_demo_weather_def
      get_demo_forecast_def empty_data_def split: option.splits)

theorem demo_mode_deterministic_and_flagged_witness:
  "\<not> truthy (self_api_key demo_cli)
   \<and> get_current_weather latin1_tables demo_cli timeout_get sao_paulo ''metric''
       = ([], Inr (get_demo_weather latin1_tables sao_paulo))
   \<and> get_current_weather latin1_tables demo_cli interrupted_get sao_paulo ''metric''
       = get_current_weather latin1_tables demo_cli timeout_get sao_paulo ''metric''
   \<and> data_name (get_demo_weather latin1_tables sao_paulo) = Some Sao_Paulo
   \<and> data_name (get_demo_weather latin1_tables ''new york-o'neil 3rd AVENUE'')
       = Some ''New York-O'Neil 3Rd Avenue''
   \<and> data_city (get_demo_forecast latin1_tables ''atlantis'')
       = Some \<lparr>city_name = Some ''Atlantis'', city_country = Some ''DEMO''\<rparr>"
proof -
  have h: "\<not> truthy (self_api_key demo_cli)"
    by (simp add: demo_cli_def truthy_def)
  have t: "title latin1_tables sao_paulo = Sao_Paulo"
    "title latin1_tables ''new york-o'neil 3rd AVENUE'' = ''New York-O'Neil 3Rd Avenue''"
    "title latin1_tables ''atlantis'' = ''Atlantis''"
    by code_simp+
  show ?thesis
    using h t
      demo_mode_deterministic_and_flagged
        [OF h, where ucd = latin1_tables and city = sao_paulo and units = "''metric''"
          and requests_get = timeout_get and requests_get' = interrupted_get]
      demo_mode_deterministic_and_flagged
        [OF h, where ucd = latin1_tables and city = "''new york-o'neil 3rd AVENUE''"]
      demo_mode_deterministic_and_flagged
        [OF h, where ucd = latin1_tables and city = "''atlantis''"]
    by simp
qed

text \<open>
  C9. For every city string the demo forecast has exactly two entries, stamped
  \<open>2024-09-22 12:00:00\<close> and \<open>2024-09-23 12:00:00\<close>, and \<open>format_forecast\<close> renders it,
  for every unit system, as the header, which announces a 5-day forecast, followed by
  exactly two day blocks.
\<close>

theorem demo_forecast_two_day_blocks:
  "map_option (map item_dt_txt) (data_list (get_demo_forecast ucd city))
     = Some [Some ''2024-09-22 12:00:00'', Some ''2024-09-23 12:00:00'']
   \<and> format_forecast ucd (get_demo_forecast ucd city) units
     = Inr ((nl @ calendar @ '' 5-Day Weather Forecast for '' @ title ucd city @ '', DEMO'' @ nl
             @ replicate 60 CHR ''='' @ nl @ wrench @ '' DEMO MODE - Using sample data'' @ nl)
          @ (nl @ tear_off_calendar @ '' Sunday, 2024-09-22'' @ nl
             @ ''   '' @ thermometer @ ''  25.0'' @ temp_unit units @ nl
             @ ''   '' @ cloud @ ''  Sunny'' @ nl
             @ ''   '' @ droplet @ '' 60% humidity'' @ nl)
          @ (nl @ tear_off_calendar @ '' Monday, 2024-09-23'' @ nl
             @ ''   '' @ thermometer @ ''  23.0'' @ temp_unit units @ nl
             @ ''   '' @ cloud @ ''  Partly Cloudy'' @ nl
             @ ''   '' @ droplet @ '' 70% humidity'' @ nl))"
  by (simp add: get_demo_forecast_def empty_data_def format_forecast_def forecast_header_def
      bind_def getitem_def get_default_def demo_note_def dict_has_def dict_new_def dict_append_def
      day_block_def midday_forecast_def first_item_def main_item_def demo_dates demo_texts)

theorem demo_forecast_two_day_blocks_witness:
  "format_forecast latin1_tables (get_demo_forecast latin1_tables ''paris'') ''metric''
     = Inr ((nl @ calendar @ '' 5-Day Weather Forecast for Paris, DEMO'' @ nl
             @ replicate 60 CHR ''='' @ nl @ wrench @ '' DEMO MODE - Using sample data'' @ nl)
          @ (nl @ tear_off_calendar @ '' Sunday, 2024-09-22'' @ nl
             @ ''   '' @ thermometer @ ''  25.0'' @ degree_sign @ ''C'' @ nl
             @ ''   '' @ cloud @ ''  Sunny'' @ nl
             @ ''   '' @ droplet @ '' 60% humidity'' @ nl)
          @ (nl @ tear_off_calendar @ '' Monday, 2024-09-23'' @ nl
             @ ''   '' @ thermometer @ ''  23.0'' @ degree_sign @ ''C'' @ nl
             @ ''   '' @ cloud @ ''  Partly Cloudy'' @ nl
             @ ''   '' @ droplet @ '' 70% humidity'' @ nl))"
proof -
  have t: "title latin1_tables ''paris'' = ''Paris''"
    by code_simp
  show ?thesis
    using t demo_forecast_two_day_blocks [of latin1_tables "''paris''" "''metric''"]
    by (simp add: temp_unit_def)
qed

text \<open>
  C10. When no API key is configured, the result of each fetch method is the same for
  \<open>units = 'metric'\<close> and \<open>units = 'imperial'\<close> (indeed for any two unit arguments): the
  demo data does not depend on the unit system. The demo weather is rendered with the
  same numbers, \<open>22.5\<close>, \<open>24.1\<close> and \<open>3.2\<close>, under the labels of whichever unit system is
  asked for.
\<close>

theorem demo_mode_ignores_units:
  assumes "\<not> truthy (self_api_key self)"
  shows "get_current_weather ucd self requests_get city ''metric''
           = get_current_weather ucd self requests_get city ''imperial''
       \<and> get_forecast ucd self requests_get city ''metric'' days
           = get_forecast ucd self requests_get city ''imperial'' days
       \<and> get_current_weather ucd self requests_get city units
           = get_current_weather ucd self requests_get city units'
       \<and> get_forecast ucd self requests_get city units days
           = get_forecast ucd self requests_get city units' days
       \<and> bind (snd (get_current_weather ucd self requests_get city units'))
            (\<lambda>data. format_current_weather ucd data units)
           = Inr (nl @ sun_behind_cloud @ ''  Current Weather for '' @ title ucd city @ '', DEMO'' @ nl
                  @ replicate 50 CHR ''='' @ nl
                  @ thermometer @ ''  Temperature: 22.5'' @ temp_unit units
                    @ '' (feels like 24.1'' @ temp_unit units @ '')'' @ nl
                  @ cloud @ ''  Condition: Clear Sky'' @ nl
                  @ droplet @ '' Humidity: 65%'' @ nl
                  @ down_button @ '' Pressure: 1013 hPa'' @ nl
                  @ dashing_away @ '' Wind: 3.2 '' @ speed_unit units @ nl
                  @ eye @ ''  Visibility: 10000 meters'' @ nl
                  @ wrench @ '' DEMO MODE - Using sample data'' @ nl)"
proof -
  have fetch: "get_current_weather ucd self requests_get city u = ([], Inr (get_demo_weather ucd city))"
    "get_forecast ucd self requests_get city u days = ([], Inr (get_demo_forecast ucd city))" for u
    using assms
    by (simp_all add: get_current_weather_def get_forecast_def truthy_def split: option.splits)
  have "format_current_weather ucd (get_demo_weather ucd city) units
          = Inr (nl @ sun_behind_cloud @ ''  Current Weather for '' @ title ucd city @ '', DEMO'' @ nl
                  @ replicate 50 CHR ''='' @ nl
                  @ thermometer @ ''  Temperature: 22.5'' @ temp_unit units
                    @ '' (feels like 24.1'' @ temp_unit units @ '')'' @ nl
                  @ cloud @ ''  Condition: Clear Sky'' @ nl
                  @ droplet @ '' Humidity: 65%'' @ nl
                  @ down_button @ '' Pressure: 1013 hPa'' @ nl
                  @ dashing_away @ '' Wind: 3.2 '' @ speed_unit units @ nl
                  @ eye @ ''  Visibility: 10000 meters'' @ nl
                  @ wrench @ '' DEMO MODE - Using sample data'' @ nl)"
    by (simp add: get_demo_weather_def empty_data_def format_current_weather_def bind_def
        getitem_def get_default_def demo_note_def first_item_def main_item_def demo_texts)
  then show ?thesis
    by (simp add: fetch bind_def)
qed

theorem demo_mode_ignores_units_witness:
  "\<not> truthy (self_api_key demo_cli)
   \<and> get_current_weather latin1_tables demo_cli timeout_get ''paris'' ''metric''
       = get_current_weather latin1_tables demo_cli timeout_get ''paris'' ''imperial''
   \<and> get_forecast latin1_tables demo_cli timeout_get ''paris'' ''metric'' 5
       = get_forecast latin1_tables demo_cli timeout_get ''paris'' ''imperial'' 5"
proof -
  have h: "\<not> truthy (self_api_key demo_cli)"
    by (simp add: demo_cli_def truthy_def)
  show ?thesis
    using h demo_mode_ignores_units [OF h, where ucd = latin1_tables
        and requests_get = timeout_get and city = "''paris''" and days = 5]
    by simp
qed

subsection \<open>Unit labels\<close>

text \<open>
  C7. The labels are \<open>\<degree>C\<close> and \<open>m/s\<close> for \<open>units = 'metric'\<close>, \<open>\<degree>F\<close> and \<open>mph\<close> for
  \<open>units = 'imperial'\<close>. For every document without an \<open>error\<close> key and every unit
  system, \<open>format_current_weather\<close> returns a text exactly when the document has the
  fields it displays, and the text is the template in which the temperature and the
  felt temperature, as they are in the document, are each followed by the temperature
  label and the wind speed, as it is in the document, by a space and the speed label.
  \<open>format_forecast\<close> returns the header followed by the blocks of the retained days, and
  the block of a day shows the temperature of its representative entry, as it is in the
  document, followed by the temperature label (a forecast shows no wind speed). The unit
  system enters nowhere else: each output is pieces of text that do not depend on it,
  joined by the labels, and a fault of formatting does not depend on it either.
\<close>

theorem units_select_labels_only:
  assumes "data_error data = None"
  shows "temp_unit ''metric'' = degree_sign @ ''C'' \<and> speed_unit ''metric'' = ''m/s''
       \<and> temp_unit ''imperial'' = degree_sign @ ''F'' \<and> speed_unit ''imperial'' = ''mph''
       \<and> (\<forall>out. format_current_weather ucd data units = Inr out \<longleftrightarrow>
             (\<exists>name m temp feels_like w0 ws description humidity pressure wind speed.
                data_name data = Some name \<and> data_main data = Some m
                \<and> main_temp m = Some temp \<and> main_feels_like m = Some feels_like
                \<and> data_weather data = Some (w0 # ws) \<and> weather_description w0 = Some description
                \<and> main_humidity m = Some humidity \<and> main_pressure m = Some pressure
                \<and> data_wind data = Some wind \<and> wind_speed wind = Some speed
                \<and> out = nl @ sun_behind_cloud @ ''  Current Weather for '' @ name @ '', ''
                          @ get_default (sys_country (get_default (data_sys data) empty_sys)) ''N/A''
                          @ nl
                        @ replicate 50 CHR ''='' @ nl
                        @ thermometer @ ''  Temperature: '' @ str_num temp @ temp_unit units
                          @ '' (feels like '' @ str_num feels_like @ temp_unit units @ '')'' @ nl
                        @ cloud @ ''  Condition: '' @ title ucd description @ nl
                        @ droplet @ '' Humidity: '' @ str_num humidity @ ''%'' @ nl
                        @ down_button @ '' Pressure: '' @ str_num pressure @ '' hPa'' @ nl
                        @ dashing_away @ '' Wind: '' @ str_num speed @ '' '' @ speed_unit units
                          @ nl
                        @ eye @ ''  Visibility: ''
                          @ (case data_visibility data of None \<Rightarrow> ''N/A'' | Some v \<Rightarrow> str_num v)
                          @ '' meters'' @ demo_note data @ nl))
       \<and> (\<forall>out. format_forecast ucd data units = Inr out \<longleftrightarrow>
             (\<exists>header entries daily blocks.
                forecast_header data = Inr header \<and> data_list data = Some entries
                \<and> group_loop [] (take 40 entries) = Inr daily
                \<and> list_all2 (\<lambda>bucket block. day_block ucd units bucket = Inr block)
                     (take 5 daily) blocks
                \<and> out = header @ concat blocks))
       \<and> (\<forall>date forecasts block. day_block ucd units (date, forecasts) = Inr block \<longleftrightarrow>
             (\<exists>midday date_obj m temp w0 ws description humidity.
                midday_forecast forecasts = Inr midday \<and> strptime ucd date = Inr date_obj
                \<and> item_main midday = Some m \<and> main_temp m = Some temp
                \<and> item_weather midday = Some (w0 # ws) \<and> weather_description w0 = Some description
                \<and> main_humidity m = Some humidity
                \<and> block = nl @ tear_off_calendar @ '' '' @ strftime_A date_obj @ '', '' @ date @ nl
                          @ ''   '' @ thermometer @ ''  '' @ str_num temp @ temp_unit units @ nl
                          @ ''   '' @ cloud @ ''  '' @ title ucd description @ nl
                          @ ''   '' @ droplet @ '' '' @ str_num humidity @ ''% humidity'' @ nl))
       \<and> (\<exists>parts. \<forall>units. format_current_weather ucd data units =
             (case parts of Inl e \<Rightarrow> Inl e
              | Inr (a, b, c, d) \<Rightarrow>
                  Inr (a @ temp_unit units @ b @ temp_unit units @ c @ speed_unit units @ d)))
       \<and> (\<exists>parts. \<forall>units. format_forecast ucd data units =
             (case parts of Inl e \<Rightarrow> Inl e
              | Inr (header, days) \<Rightarrow>
                  Inr (header @ concat (map (\<lambda>(a, b). a @ temp_unit units @ b) days))))"
proof -
  have labels: "temp_unit ''metric'' = degree_sign @ ''C''" "speed_unit ''metric'' = ''m/s''"
    "temp_unit ''imperial'' = degree_sign @ ''F''" "speed_unit ''imperial'' = ''mph''"
    by (simp_all add: temp_unit_def speed_unit_def)
  show ?thesis
    by (intro conjI allI)
      (rule labels format_current_weather_Inr_iff [OF assms] format_forecast_Inr_iff [OF assms]
        day_block_Inr_iff format_current_weather_parts [OF assms]
        format_forecast_parts [OF assms])+
qed

theorem units_select_labels_only_witness:
  "data_error (get_demo_weather latin1_tables ''paris'') = None
   \<and> format_current_weather latin1_tables (get_demo_weather latin1_tables ''paris'') ''metric''
       = Inr (nl @ sun_behind_cloud @ ''  Current Weather for Paris, DEMO'' @ nl
              @ replicate 50 CHR ''='' @ nl
              @ thermometer @ ''  Temperature: 22.5'' @ degree_sign @ ''C''
                @ '' (feels like 24.1'' @ degree_sign @ ''C'' @ '')'' @ nl
              @ cloud @ ''  Condition: Clear Sky'' @ nl
              @ droplet @ '' Humidity: 65%'' @ nl
              @ down_button @ '' Pressure: 1013 hPa'' @ nl
              @ dashing_away @ '' Wind: 3.2 m/s'' @ nl
              @ eye @ ''  Visibility: 10000 meters'' @ nl
              @ wrench @ '' DEMO MODE - Using sample data'' @ nl)
   \<and> format_current_weather latin1_tables (get_demo_weather latin1_tables ''paris'') ''imperial''
       = Inr (nl @ sun_behind_cloud @ ''  Current Weather for Paris, DEMO'' @ nl
              @ replicate 50 CHR ''='' @ nl
              @ thermometer @ ''  Temperature: 22.5'' @ degree_sign @ ''F''
                @ '' (feels like 24.1'' @ degree_sign @ ''F'' @ '')'' @ nl
              @ cloud @ ''  Condition: Clear Sky'' @ nl
              @ droplet @ '' Humidity: 65%'' @ nl
              @ down_button @ '' Pressure: 1013 hPa'' @ nl
              @ dashing_away @ '' Wind: 3.2 mph'' @ nl
              @ eye @ ''  Visibility: 10000 meters'' @ nl
              @ wrench @ '' DEMO MODE - Using sample data'' @ nl)
   \<and> day_block latin1_tables ''imperial''
         (''2024-09-22'', [sample_item ''2024-09-22 12:00:00'' ''71.6''])
       = Inr (nl @ tear_off_calendar @ '' Sunday, 2024-09-22'' @ nl
              @ ''   '' @ thermometer @ ''  71.6'' @ degree_sign @ ''F'' @ nl
              @ ''   '' @ cloud @ ''  Scattered Clouds'' @ nl
              @ ''   '' @ droplet @ '' 50% humidity'' @ nl)"
proof -
  have e: "data_error (get_demo_weather latin1_tables ''paris'') = None"
    by (simp add: get_demo_weather_def empty_data_def)
  have t: "title latin1_tables ''paris'' = ''Paris''"
    "title latin1_tables ''scattered clouds'' = ''Scattered Clouds''" "str_int 50 = ''50''"
    by code_simp+
  have m: "midday_forecast [sample_item ''2024-09-22 12:00:00'' ''71.6'']
             = Inr (sample_item ''2024-09-22 12:00:00'' ''71.6'')"
    by code_simp
  note inst = units_select_labels_only [OF e, where ucd = latin1_tables]
  note current = inst [THEN conjunct2, THEN conjunct2, THEN conjunct2, THEN conjunct2,
      THEN conjunct1, rule_format]
  note block = inst [THEN conjunct2, THEN conjunct2, THEN conjunct2, THEN conjunct2,
      THEN conjunct2, THEN conjunct2, THEN conjunct1, rule_format]
  have c: "format_current_weather latin1_tables (get_demo_weather latin1_tables ''paris'') units
       = Inr (nl @ sun_behind_cloud @ ''  Current Weather for Paris, DEMO'' @ nl
              @ replicate 50 CHR ''='' @ nl
              @ thermometer @ ''  Temperature: 22.5'' @ temp_unit units
                @ '' (feels like 24.1'' @ temp_unit units @ '')'' @ nl
              @ cloud @ ''  Condition: Clear Sky'' @ nl
              @ droplet @ '' Humidity: 65%'' @ nl
              @ down_button @ '' Pressure: 1013 hPa'' @ nl
              @ dashing_away @ '' Wind: 3.2 '' @ speed_unit units @ nl
              @ eye @ ''  Visibility: 10000 meters'' @ nl
              @ wrench @ '' DEMO MODE - Using sample data'' @ nl)" for units
    by (subst current)
      (simp add: get_demo_weather_def empty_data_def get_default_def demo_note_def
        demo_texts t)
  have d: "day_block latin1_tables units
         (''2024-09-22'', [sample_item ''2024-09-22 12:00:00'' ''71.6''])
       = Inr (nl @ tear_off_calendar @ '' Sunday, 2024-09-22'' @ nl
              @ ''   '' @ thermometer @ ''  71.6'' @ temp_unit units @ nl
              @ ''   '' @ cloud @ ''  Scattered Clouds'' @ nl
              @ ''   '' @ droplet @ '' 50% humidity'' @ nl)" for units
    by (subst block) (simp add: m [unfolded sample_item_def] sample_item_def demo_dates demo_texts t)
  show ?thesis
    using e c [of "''metric''"] c [of "''imperial''"] d [of "''imperial''"]
    by (simp add: temp_unit_def speed_unit_def)
qed

subsection \<open>The top level\<close>

text \<open>
  C8, as the program has it. Once \<open>parse_args\<close> has returned and the \<open>WeatherCLI\<close>
  object is constructed, a fault of the \<open>try\<close> block of \<open>main\<close> (fetching, formatting,
  printing the result) is handled. On a \<open>KeyboardInterrupt\<close>, \<open>main\<close> prints the farewell
  line and then exits with status 0. On any other exception of class \<open>Exception\<close>, it
  prints \<open>Unexpected error:\<close> with the message, one line when the message is, and then
  exits with status 1. When the \<open>print\<close> of the handler itself raises, that exception
  leaves \<open>main\<close> instead. An exception that is neither a \<open>KeyboardInterrupt\<close> nor of
  class \<open>Exception\<close> leaves \<open>main\<close> as it is.
\<close>

theorem main_handles_faults_of_try_block:
  assumes "w_parse_args w = Inr a"
    and "init w [] (args_api_key a) = (out, Inr weather)"
    and "try_body w out weather a = (out1, Inl e)"
  shows "(e = KeyboardInterrupt \<longrightarrow>
            main w =
              (case w_print_fault w (nl @ waving_hand @ '' Goodbye!'') of
                 None \<Rightarrow> (out1 @ (nl @ waving_hand @ '' Goodbye!'') @ nl, Inl (SystemExit 0))
               | Some (n, e2) \<Rightarrow>
                   (out1 @ take n ((nl @ waving_hand @ '' Goodbye!'') @ nl), Inl e2)))
       \<and> (is_Exception e \<longrightarrow>
            main w =
              (case w_print_fault w (cross_mark @ '' Unexpected error: '' @ exn_str e) of
                 None \<Rightarrow>
                   (out1 @ (cross_mark @ '' Unexpected error: '' @ exn_str e) @ nl,
                    Inl (SystemExit 1))
               | Some (n, e2) \<Rightarrow>
                   (out1 @ take n ((cross_mark @ '' Unexpected error: '' @ exn_str e) @ nl),
                    Inl e2)))
       \<and> (CHR 0x0A \<notin> set (exn_str e)
            \<longrightarrow> CHR 0x0A \<notin> set (cross_mark @ '' Unexpected error: '' @ exn_str e))
       \<and> (e \<noteq> KeyboardInterrupt \<and> \<not> is_Exception e \<longrightarrow> main w = (out1, Inl e))"
  using assms
  by (auto simp: main_def py_print_def cross_mark_def split: option.splits)

theorem main_handles_faults_of_try_block_witness:
  "w_parse_args interrupted_fetch = Inr london_live
   \<and> init interrupted_fetch [] (args_api_key london_live) = ([], Inr live_cli)
   \<and> try_body interrupted_fetch [] live_cli london_live = ([], Inl KeyboardInterrupt)
   \<and> main interrupted_fetch = (nl @ waving_hand @ '' Goodbye!'' @ nl, Inl (SystemExit 0))
   \<and> w_parse_args empty_response = Inr london_live
   \<and> init empty_response [] (args_api_key london_live) = ([], Inr live_cli)
   \<and> try_body empty_response [] live_cli london_live = ([], Inl (KeyError ''name''))
   \<and> CHR 0x0A \<notin> set (exn_str (KeyError ''name''))
   \<and> main empty_response
       = (cross_mark @ '' Unexpected error: '' @ exn_str (KeyError ''name'') @ nl,
          Inl (SystemExit 1))"
proof -
  have p: "w_parse_args interrupted_fetch = Inr london_live"
    "w_parse_args empty_response = Inr london_live"
    by (simp_all add: interrupted_fetch_def empty_response_def)
  have i: "init interrupted_fetch [] (args_api_key london_live) = ([], Inr live_cli)"
    "init empty_response [] (args_api_key london_live) = ([], Inr live_cli)"
    by (simp_all add: init_def london_live_def truthy_def live_cli_def)
  have t1: "try_body interrupted_fetch [] live_cli london_live = ([], Inl KeyboardInterrupt)"
    by (simp add: try_body_def interrupted_fetch_def london_live_def live_cli_def
        get_current_weather_def interrupted_get_def try_request_def request_failed_def bind_def)
  have t2: "try_body empty_response [] live_cli london_live = ([], Inl (KeyError ''name''))"
    by (simp add: try_body_def empty_response_def london_live_def live_cli_def
        get_current_weather_def try_request_def bind_def format_current_weather_def
        empty_data_def getitem_def)
  have f: "w_print_fault interrupted_fetch (nl @ waving_hand @ '' Goodbye!'') = None"
    "w_print_fault empty_response (cross_mark @ '' Unexpected error: '' @ exn_str (KeyError ''name'')) = None"
    by (simp_all add: interrupted_fetch_def empty_response_def)
  have l: "CHR 0x0A \<notin> set (exn_str (KeyError ''name''))"
    by simp
  show ?thesis
    using p i t1 t2 f l
      main_handles_faults_of_try_block [OF p(1) i(1) t1]
      main_handles_faults_of_try_block [OF p(2) i(2) t2]
    by simp
qed

text \<open>
  C8 as stated fails in two ways. An interrupt before the \<open>try\<close> block, while the
  constructor prints its warning, leaves \<open>main\<close> as a \<open>KeyboardInterrupt\<close>: no farewell line,
  no \<open>sys.exit(0)\<close>. And a fault inside the \<open>try\<close> block is not reported when the \<open>print\<close> of
  the handler raises too: on a standard output that encodes as ASCII, the \<open>print\<close> of the
  result raises \<open>UnicodeEncodeError\<close>, the \<open>print\<close> of the error line raises it again, and
  that exception leaves \<open>main\<close> with nothing printed and no \<open>sys.exit(1)\<close>.
\<close>

theorem interrupt_during_warning_escapes_main:
  "main interrupted_warning = ([], Inl KeyboardInterrupt)
   \<and> try_body ascii_stdout [] live_cli london_live = ([], Inl (OtherError cannot_encode))
   \<and> is_Exception (OtherError cannot_encode)
   \<and> main ascii_stdout = ([], Inl (OtherError cannot_encode))"
proof -
  have w: "main interrupted_warning = ([], Inl KeyboardInterrupt)"
    by (simp add: main_def interrupted_warning_def paris_demo_def init_def truthy_def
        py_print_def first_warning_def)
  have t: "try_body ascii_stdout [] live_cli london_live = ([], Inl (OtherError cannot_encode))"
    by (simp add: try_body_def ascii_stdout_def london_live_def live_cli_def
        get_current_weather_def timeout_get_def try_request_def request_failed_def bind_def
        format_current_weather_def empty_data_def py_print_def cross_mark_def byte_def)
  have i: "init ascii_stdout [] (args_api_key london_live) = ([], Inr live_cli)"
    by (simp add: init_def london_live_def truthy_def live_cli_def)
  have p: "w_parse_args ascii_stdout = Inr london_live"
    by (simp add: ascii_stdout_def)
  have f: "w_print_fault ascii_stdout (cross_mark @ '' Unexpected error: '' @ cannot_encode)
             = Some (0, OtherError cannot_encode)"
    by (simp add: ascii_stdout_def cross_mark_def byte_def)
  have m: "main ascii_stdout = ([], Inl (OtherError cannot_encode))"
    using t i p f by (simp add: main_def py_print_def)
  show ?thesis
    using w t m by simp
qed

end
